theory Spec2Isabelle
  imports Main "HOL-Library.Word"
begin

section \<open>The metadata document\<close>

text \<open>
  The package \<open>meta\<close> of cnosdb: the single-process client (\<open>Client\<close>, file
  \<open>meta/client.go\<close>) and the cluster client (\<open>RemoteClient\<close>). Both work on the
  metadata document \<open>Data\<close>.

  Instants (\<open>time.Time\<close>) are counted in nanoseconds from the zero Time, so that
  \<open>IsZero t\<close> is \<open>t = 0\<close>; a \<open>time.Duration\<close> is a number of nanoseconds. The
  code only adds a duration to an instant and compares instants, and none of these
  operations depends on the width of the representation, so both are integers.
  \<open>Index\<close> and the identifiers are \<open>uint64\<close>: 64-bit words, whose \<open>+\<close> wraps.
\<close>

type_synonym Time = int
type_synonym Duration = int
type_synonym uint64 = "64 word"

definition Nanosecond :: Duration where "Nanosecond = 1"
definition Hour :: Duration where "Hour = 3600 * 1000000000"

definition IsZero :: "Time \<Rightarrow> bool" where "IsZero t \<longleftrightarrow> t = 0"
definition After :: "Time \<Rightarrow> Time \<Rightarrow> bool" where "After t u \<longleftrightarrow> t > u"
definition Before :: "Time \<Rightarrow> Time \<Rightarrow> bool" where "Before t u \<longleftrightarrow> t < u"
definition Add :: "Time \<Rightarrow> Duration \<Rightarrow> Time" where "Add t d = t + d"

text \<open>
  Modelled from the spec: the declarations of \<open>Data\<close> and of the entities it holds are
  in \<open>meta/data.go\<close>, which is not among the source files. The records follow the table
  of section 3 of the specification and the fields the two clients read.
\<close>

record ShardInfo =
  shard_ID :: uint64
  Owners :: "uint64 list"

record ShardGroupInfo =
  sg_ID :: uint64
  StartTime :: Time
  EndTime :: Time
  DeletedAt :: Time
  TruncatedAt :: Time
  Shards :: "ShardInfo list"

record SubscriptionInfo =
  sub_Name :: string
  Mode :: string
  Destinations :: "string list"

record RetentionPolicyInfo =
  rp_Name :: string
  ReplicaN :: int
  rp_Duration :: Duration
  ShardGroupDuration :: Duration
  ShardGroups :: "ShardGroupInfo list"
  Subscriptions :: "SubscriptionInfo list"

record ContinuousQueryInfo =
  cq_Name :: string
  Query :: string

record DatabaseInfo =
  db_Name :: string
  DefaultRetentionPolicy :: string
  RetentionPolicies :: "RetentionPolicyInfo list"
  ContinuousQueries :: "ContinuousQueryInfo list"

record NodeInfo =
  node_ID :: uint64
  Host :: string
  TCPHost :: string

record UserInfo =
  user_Name :: string
  Hash :: string
  Admin :: bool
  Privileges :: "(string \<times> int) list"

record Data =
  ClusterID :: uint64
  Index :: uint64
  MaxNodeID :: uint64
  MaxShardGroupID :: uint64
  MaxShardID :: uint64
  Databases :: "DatabaseInfo list"
  DataNodes :: "NodeInfo list"
  MetaNodes :: "NodeInfo list"
  Users :: "UserInfo list"

record Lease =
  lease_Name :: string
  Owner :: uint64
  Expiration :: Time

record RetentionPolicySpec =
  spec_Name :: string
  spec_ReplicaN :: "int option"
  spec_Duration :: "Duration option"
  spec_ShardGroupDuration :: Duration

record RetentionPolicyUpdate =
  rpu_Name :: "string option"
  rpu_Duration :: "Duration option"
  rpu_ReplicaN :: "int option"

text \<open>
  Every error value the two clients return. \<open>errRedirect\<close> and \<open>errCommand\<close> are the
  two error types of the cluster client; \<open>ErrOpaque\<close> stands for an error made by a
  collaborator (the disk, the network, the random source, bcrypt, a method of \<open>Data\<close>)
  whose text the clients pass on unread. \<open>Panic\<close> is no error value: it marks a
  run that ends in a run-time panic (a nil pointer dereferenced, an index out of range)
  instead of returning.
\<close>

datatype error =
    ErrServiceUnavailable
  | ErrService
  | ErrUserNotFound
  | ErrUserExists
  | ErrAuthenticate
  | ErrRetentionPolicyDurationTooLow
  | ErrRetentionPolicyConflict
  | ErrDatabaseNotExists
  | ErrNodeNotFound
  | ErrShardGroupExists
  | ErrDatabaseNotFound string
  | ErrRetentionPolicyNotFound string
  | ErrNilSpec
  | ErrRetentionPolicyDeleted
  | ErrNewMetaNodeNotFound
  | errRedirect string
  | errCommand string
  | ErrStatus nat
  | ErrNameConflict
  | ErrOpaque string
  | Panic string

text \<open>
  Modelled from the spec: \<open>Data.Clone\<close> is in \<open>meta/data.go\<close>. The specification asks of
  a clone that it deep-copies every slice and map; a value of HOL shares nothing, so the
  clone of a document is the document.
\<close>

definition Clone :: "Data \<Rightarrow> Data" where
  "Clone data = data"

text \<open>
  Modelled from the spec: \<open>ShardGroupInfo.Deleted\<close> is in \<open>meta/data.go\<close>; by section 3
  of the specification \<open>DeletedAt\<close> is zero exactly for a live group.
\<close>

definition Deleted :: "ShardGroupInfo \<Rightarrow> bool" where
  "Deleted sgi \<longleftrightarrow> \<not> IsZero (DeletedAt sgi)"

text \<open>
  Modelled from the spec: \<open>Data.Database\<close>, \<open>Data.user\<close>,
  \<open>DatabaseInfo.RetentionPolicy\<close> and \<open>Data.RetentionPolicy\<close> are in
  \<open>meta/data.go\<close>. By section 3 names identify databases, users and the policies of one
  database; the lookups are the loops that \<open>Client.Database\<close>, \<open>Client.User\<close> and
  \<open>Client.RetentionPolicy\<close> of \<open>meta/client.go\<close> run over the cached document: the
  first entry with the name, or nil.
\<close>

definition Data_Database :: "Data \<Rightarrow> string \<Rightarrow> DatabaseInfo option" where
  "Data_Database data name = find (\<lambda>d. db_Name d = name) (Databases data)"

definition Data_user :: "Data \<Rightarrow> string \<Rightarrow> UserInfo option" where
  "Data_user data name = find (\<lambda>u. user_Name u = name) (Users data)"

definition db_RetentionPolicy :: "DatabaseInfo \<Rightarrow> string \<Rightarrow> RetentionPolicyInfo option" where
  "db_RetentionPolicy db name = find (\<lambda>rp. rp_Name rp = name) (RetentionPolicies db)"

definition Data_RetentionPolicy ::
  "Data \<Rightarrow> string \<Rightarrow> string \<Rightarrow> error + RetentionPolicyInfo option" where
  "Data_RetentionPolicy data database name =
     (case Data_Database data database of
        None \<Rightarrow> Inl (ErrDatabaseNotFound database)
      | Some db \<Rightarrow> Inr (db_RetentionPolicy db name))"

text \<open>
  Modelled from the spec: the constants \<open>MinRetentionPolicyDuration\<close> (one hour, section
  6) and \<open>DefaultLeaseDuration\<close> are declared outside the source files. The lease
  duration is not given by the specification either, so it is a parameter of
  \<open>AcquireLease\<close>.
\<close>

definition MinRetentionPolicyDuration :: Duration where
  "MinRetentionPolicyDuration = Hour"

section \<open>The single-process client\<close>

text \<open>
  \<open>closing\<close> tells whether the channel of that name has been closed; \<open>changed\<close>
  counts how often the channel \<open>changed\<close> has been closed and replaced. The mutex
  serialises the operations; each operation below is one critical section.
\<close>

record authUser =
  bhash :: string
  salt :: string
  hash :: string

record Client =
  nodeID :: uint64
  closing :: bool
  changed :: nat
  cacheData :: Data
  authCache :: "string \<rightharpoonup> authUser"
  path :: string
  retentionPolicyAutoCreate :: bool

text \<open>
  The disk is a parameter: \<open>snapshot path data\<close> is the error of writing the document
  to \<open>meta.db\<close> under \<open>path\<close>, or \<open>None\<close> when the file was written and renamed.
\<close>

type_synonym snapshot_fn = "string \<Rightarrow> Data \<Rightarrow> error option"

definition commit :: "snapshot_fn \<Rightarrow> Client \<Rightarrow> Data \<Rightarrow> error option \<times> Client" where
  "commit snapshot c data =
     (let data' = data\<lparr>Index := Index data + 1\<rparr> in
      case snapshot (path c) data' of
        Some err \<Rightarrow> (Some err, c)
      | None \<Rightarrow> (None, c\<lparr>cacheData := data', changed := Suc (changed c)\<rparr>))"

subsection \<open>The methods of the document\<close>

text \<open>
  The methods of \<open>Data\<close> that change the document, and a few that read it, are in
  \<open>meta/data.go\<close>, which is not among the source files. The clients are modelled over
  any implementation of them: a value of \<open>DataMethods\<close>. A Go method
  \<open>func (data *Data) M(args) error\<close> works on its receiver in place and may return an
  error after it has changed it, so a method returns its error together with the
  document as it leaves it.
\<close>

record DataMethods =
  Data_CreateDatabase :: "Data \<Rightarrow> string \<Rightarrow> error option \<times> Data"
  Data_DropDatabase :: "Data \<Rightarrow> string \<Rightarrow> error option \<times> Data"
  Data_CreateRetentionPolicy ::
    "Data \<Rightarrow> string \<Rightarrow> RetentionPolicyInfo \<Rightarrow> bool \<Rightarrow> error option \<times> Data"
  Data_DropRetentionPolicy :: "Data \<Rightarrow> string \<Rightarrow> string \<Rightarrow> error option \<times> Data"
  Data_SetDefaultRetentionPolicy :: "Data \<Rightarrow> string \<Rightarrow> string \<Rightarrow> error option \<times> Data"
  Data_UpdateRetentionPolicy ::
    "Data \<Rightarrow> string \<Rightarrow> string \<Rightarrow> RetentionPolicyUpdate \<Rightarrow> bool \<Rightarrow> error option \<times> Data"
  Data_CreateUser :: "Data \<Rightarrow> string \<Rightarrow> string \<Rightarrow> bool \<Rightarrow> error option \<times> Data"
  Data_UpdateUser :: "Data \<Rightarrow> string \<Rightarrow> string \<Rightarrow> error option \<times> Data"
  Data_DropUser :: "Data \<Rightarrow> string \<Rightarrow> error option \<times> Data"
  Data_SetPrivilege :: "Data \<Rightarrow> string \<Rightarrow> string \<Rightarrow> int \<Rightarrow> error option \<times> Data"
  Data_SetAdminPrivilege :: "Data \<Rightarrow> string \<Rightarrow> bool \<Rightarrow> error option \<times> Data"
  Data_DropShard :: "Data \<Rightarrow> uint64 \<Rightarrow> Data"
  Data_TruncateShardGroups :: "Data \<Rightarrow> Time \<Rightarrow> Data"
  Data_CreateShardGroup :: "Data \<Rightarrow> string \<Rightarrow> string \<Rightarrow> Time \<Rightarrow> error option \<times> Data"
  Data_DeleteShardGroup :: "Data \<Rightarrow> string \<Rightarrow> string \<Rightarrow> uint64 \<Rightarrow> error option \<times> Data"
  Data_CreateContinuousQuery ::
    "Data \<Rightarrow> string \<Rightarrow> string \<Rightarrow> string \<Rightarrow> error option \<times> Data"
  Data_DropContinuousQuery :: "Data \<Rightarrow> string \<Rightarrow> string \<Rightarrow> error option \<times> Data"
  Data_CreateSubscription ::
    "Data \<Rightarrow> string \<Rightarrow> string \<Rightarrow> string \<Rightarrow> string \<Rightarrow> string list \<Rightarrow> error option \<times> Data"
  Data_DropSubscription :: "Data \<Rightarrow> string \<Rightarrow> string \<Rightarrow> string \<Rightarrow> error option \<times> Data"
  Data_ShardGroupByTimestamp :: "Data \<Rightarrow> string \<Rightarrow> string \<Rightarrow> Time \<Rightarrow> ShardGroupInfo option"
  rpi_ShardGroupByTimestamp :: "RetentionPolicyInfo \<Rightarrow> Time \<Rightarrow> ShardGroupInfo option"
  DefaultRetentionPolicyInfo :: RetentionPolicyInfo
  NewRetentionPolicyInfo :: "RetentionPolicySpec \<Rightarrow> RetentionPolicyInfo"
  Matches :: "RetentionPolicySpec \<Rightarrow> RetentionPolicyInfo option \<Rightarrow> bool"

text \<open>
  \<open>Data.ShardGroupByTimestamp\<close> also returns an error; every caller drops it
  (\<open>rg, _ := ...\<close>), so only the group is kept.

  The cryptographic collaborators are parameters as well: bcrypt
  (\<open>GenerateFromPassword\<close> at the configured cost, \<open>CompareHashAndPassword\<close>, which is
  \<open>True\<close> when the library returns a nil error) and SHA-256. Byte slices and strings
  are both lists of bytes.
\<close>

record Crypto =
  GenerateFromPassword :: "string \<Rightarrow> error + string"
  CompareHashAndPassword :: "string \<Rightarrow> string \<Rightarrow> bool"
  Sum256 :: "string \<Rightarrow> string"

definition hashWithSalt :: "Crypto \<Rightarrow> string \<Rightarrow> string \<Rightarrow> string" where
  "hashWithSalt K salt0 password = Sum256 K (salt0 @ password)"

text \<open>
  \<open>saltedHash\<close> reads \<open>SaltBytes\<close> bytes from the random source; \<open>rnd\<close> is what that
  read gave: the bytes, or its error.
\<close>

definition SaltBytes :: nat where "SaltBytes = 32"

definition saltedHash :: "Crypto \<Rightarrow> error + string \<Rightarrow> string \<Rightarrow> error + string \<times> string" where
  "saltedHash K rnd password =
     (case rnd of
        Inl err \<Rightarrow> Inl err
      | Inr salt0 \<Rightarrow> Inr (salt0, hashWithSalt K salt0 password))"

subsection \<open>Operations that clone, change and commit\<close>

text \<open>
  Most operations are the same four lines: clone the cached document, call one method of
  \<open>Data\<close> on the clone, return its error if it has one, and commit the clone otherwise.
\<close>

definition mutate :: "snapshot_fn \<Rightarrow> Client \<Rightarrow> (Data \<Rightarrow> error option \<times> Data) \<Rightarrow> error option \<times> Client" where
  "mutate snapshot c change =
     (case change (Clone (cacheData c)) of
        (Some err, _) \<Rightarrow> (Some err, c)
      | (None, data) \<Rightarrow> commit snapshot c data)"





definition DropUser :: "DataMethods \<Rightarrow> snapshot_fn \<Rightarrow> Client \<Rightarrow> string \<Rightarrow> error option \<times> Client" where
  "DropUser M snapshot c name = mutate snapshot c (\<lambda>data. Data_DropUser M data name)"











subsection \<open>Databases and retention policies\<close>

definition CreateDatabase ::
  "DataMethods \<Rightarrow> snapshot_fn \<Rightarrow> Client \<Rightarrow> string \<Rightarrow> (error + DatabaseInfo option) \<times> Client" where
  "CreateDatabase M snapshot c name =
     (let data = Clone (cacheData c) in
      case Data_Database data name of
        Some db \<Rightarrow> (Inr (Some db), c)
      | None \<Rightarrow>
          (case Data_CreateDatabase M data name of
             (Some err, _) \<Rightarrow> (Inl err, c)
           | (None, data1) \<Rightarrow>
               (case (if retentionPolicyAutoCreate c
                      then Data_CreateRetentionPolicy M data1 name (DefaultRetentionPolicyInfo M) True
                      else (None, data1)) of
                  (Some err, _) \<Rightarrow> (Inl err, c)
                | (None, data2) \<Rightarrow>
                    (let db = Data_Database data2 name in
                     case commit snapshot c data2 of
                       (Some err, c') \<Rightarrow> (Inl err, c')
                     | (None, c') \<Rightarrow> (Inr db, c')))))"

text \<open>
  The guard of the four policy-creating operations:
  \<open>spec.Duration != nil && *spec.Duration < MinRetentionPolicyDuration && *spec.Duration != 0\<close>.
  \<open>CreateRetentionPolicy\<close> takes its \<open>spec\<close> as given, not nil.
\<close>

definition DurationTooLow :: "RetentionPolicySpec \<Rightarrow> bool" where
  "DurationTooLow spec \<longleftrightarrow>
     (case spec_Duration spec of
        None \<Rightarrow> False
      | Some d \<Rightarrow> d < MinRetentionPolicyDuration \<and> d \<noteq> 0)"

text \<open>
  In \<open>CreateDatabaseWithRetentionPolicy\<close> the variable \<open>db\<close> points into the clone, so
  after \<open>data.CreateRetentionPolicy\<close> has run it shows the database as that method left
  it: the model looks the database up again (and keeps the earlier value should the
  method have removed it). A nil \<open>db\<close> is dereferenced by \<open>len(db.RetentionPolicies)\<close>.
\<close>

definition CreateDatabaseWithRetentionPolicy ::
  "DataMethods \<Rightarrow> snapshot_fn \<Rightarrow> Client \<Rightarrow> string \<Rightarrow> RetentionPolicySpec option
     \<Rightarrow> (error + DatabaseInfo option) \<times> Client" where
  "CreateDatabaseWithRetentionPolicy M snapshot c name spec0 =
     (case spec0 of
        None \<Rightarrow> (Inl ErrNilSpec, c)
      | Some spec \<Rightarrow>
          (let data = Clone (cacheData c) in
           if DurationTooLow spec then (Inl ErrRetentionPolicyDurationTooLow, c)
           else
             case (case Data_Database data name of
                     Some db \<Rightarrow> (None, data, Some db)
                   | None \<Rightarrow>
                       (case Data_CreateDatabase M data name of
                          (Some err, data1) \<Rightarrow> (Some err, data1, None)
                        | (None, data1) \<Rightarrow> (None, data1, Data_Database data1 name))) of
               (Some err, _, _) \<Rightarrow> (Inl err, c)
             | (None, data1, None) \<Rightarrow> (Inl (Panic ''nil pointer dereference''), c)
             | (None, data1, Some db) \<Rightarrow>
                 (let rpi = NewRetentionPolicyInfo M spec in
                  case (if RetentionPolicies db = []
                        then Data_CreateRetentionPolicy M data1 name rpi True
                        else if \<not> Matches M spec (db_RetentionPolicy db (rp_Name rpi))
                        then (Some ErrRetentionPolicyConflict, data1)
                        else (None, data1)) of
                    (Some err, _) \<Rightarrow> (Inl err, c)
                  | (None, data2) \<Rightarrow>
                      (let db' = (case Data_Database data2 name of Some d \<Rightarrow> d | None \<Rightarrow> db) in
                       if DefaultRetentionPolicy db' \<noteq> rp_Name rpi
                       then (Inl ErrRetentionPolicyConflict, c)
                       else
                         case commit snapshot c data2 of
                           (Some err, c') \<Rightarrow> (Inl err, c')
                         | (None, c') \<Rightarrow> (Inr (Data_Database data2 name), c')))))"

definition CreateRetentionPolicy ::
  "DataMethods \<Rightarrow> snapshot_fn \<Rightarrow> Client \<Rightarrow> string \<Rightarrow> RetentionPolicySpec \<Rightarrow> bool
     \<Rightarrow> (error + RetentionPolicyInfo) \<times> Client" where
  "CreateRetentionPolicy M snapshot c database spec makeDefault =
     (let data = Clone (cacheData c) in
      if DurationTooLow spec then (Inl ErrRetentionPolicyDurationTooLow, c)
      else
        (let rp = NewRetentionPolicyInfo M spec in
         case Data_CreateRetentionPolicy M data database rp makeDefault of
           (Some err, _) \<Rightarrow> (Inl err, c)
         | (None, data1) \<Rightarrow>
             (case commit snapshot c data1 of
                (Some err, c') \<Rightarrow> (Inl err, c')
              | (None, c') \<Rightarrow> (Inr rp, c'))))"

subsection \<open>Users and authentication\<close>

definition CreateUser ::
  "DataMethods \<Rightarrow> Crypto \<Rightarrow> snapshot_fn \<Rightarrow> Client \<Rightarrow> string \<Rightarrow> string \<Rightarrow> bool
     \<Rightarrow> (error + UserInfo option) \<times> Client" where
  "CreateUser M K snapshot c name password admin =
     (let data = Clone (cacheData c) in
      case Data_user data name of
        Some u \<Rightarrow>
          if \<not> CompareHashAndPassword K (Hash u) password \<or> Admin u \<noteq> admin
          then (Inl ErrUserExists, c)
          else (Inr (Some u), c)
      | None \<Rightarrow>
          (case GenerateFromPassword K password of
             Inl err \<Rightarrow> (Inl err, c)
           | Inr hashed \<Rightarrow>
               (case Data_CreateUser M data name hashed admin of
                  (Some err, _) \<Rightarrow> (Inl err, c)
                | (None, data1) \<Rightarrow>
                    (let u = Data_user data1 name in
                     case commit snapshot c data1 of
                       (Some err, c') \<Rightarrow> (Inl err, c')
                     | (None, c') \<Rightarrow> (Inr u, c')))))"

definition UpdateUser ::
  "DataMethods \<Rightarrow> Crypto \<Rightarrow> snapshot_fn \<Rightarrow> Client \<Rightarrow> string \<Rightarrow> string \<Rightarrow> error option \<times> Client" where
  "UpdateUser M K snapshot c name password =
     (let data = Clone (cacheData c) in
      case GenerateFromPassword K password of
        Inl err \<Rightarrow> (Some err, c)
      | Inr hashed \<Rightarrow>
          (case Data_UpdateUser M data name hashed of
             (Some err, _) \<Rightarrow> (Some err, c)
           | (None, data1) \<Rightarrow>
               commit snapshot (c\<lparr>authCache := (authCache c)(name := None)\<rparr>) data1))"

definition cache_accepts :: "Crypto \<Rightarrow> Client \<Rightarrow> string \<Rightarrow> string \<Rightarrow> bool" where
  "cache_accepts K c username password =
     (case authCache c username of
        None \<Rightarrow> False
      | Some au \<Rightarrow> hashWithSalt K (salt au) password = hash au)"

definition Authenticate ::
  "Crypto \<Rightarrow> error + string \<Rightarrow> Client \<Rightarrow> string \<Rightarrow> string \<Rightarrow> (error + UserInfo) \<times> Client" where
  "Authenticate K rnd c username password =
     (case Data_user (cacheData c) username of
        None \<Rightarrow> (Inl ErrUserNotFound, c)
      | Some userInfo \<Rightarrow>
          if cache_accepts K c username password then (Inr userInfo, c)
          else if \<not> CompareHashAndPassword K (Hash userInfo) password
          then (Inl ErrAuthenticate, c)
          else
            (case saltedHash K rnd password of
               Inl err \<Rightarrow> (Inl err, c)
             | Inr (salt0, hashed) \<Rightarrow>
                 (Inr userInfo,
                  c\<lparr>authCache := (authCache c)
                       (username \<mapsto> \<lparr>bhash = Hash userInfo, salt = salt0, hash = hashed\<rparr>)\<rparr>)))"

subsection \<open>Shard groups\<close>

definition createShardGroup ::
  "DataMethods \<Rightarrow> Data \<Rightarrow> string \<Rightarrow> string \<Rightarrow> Time \<Rightarrow> (error + ShardGroupInfo option) \<times> Data" where
  "createShardGroup M data database rp timestamp =
     (case Data_ShardGroupByTimestamp M data database rp timestamp of
        Some rg \<Rightarrow> (Inl ErrShardGroupExists, data)
      | None \<Rightarrow>
          (case Data_CreateShardGroup M data database rp timestamp of
             (Some err, data1) \<Rightarrow> (Inl err, data1)
           | (None, data1) \<Rightarrow>
               (case Data_RetentionPolicy data1 database rp of
                  Inl err \<Rightarrow> (Inl err, data1)
                | Inr None \<Rightarrow> (Inl ErrRetentionPolicyDeleted, data1)
                | Inr (Some rpi) \<Rightarrow> (Inr (rpi_ShardGroupByTimestamp M rpi timestamp), data1))))"


text \<open>
  \<open>PrecreateShardGroups\<close>: the body of the inner loop for one retention policy \<open>rp\<close> of
  the database called \<open>di_Name\<close>, and the two loops. The loops run over the databases
  and the policies as the clone has them when the loop starts (a \<open>range\<close> evaluates its
  slice once, and the loop variables are copies), while the clone itself, \<open>data\<close>, is
  changed by \<open>createShardGroup\<close> as they go. After a successful creation the code
  logs \<open>newGroup.ID\<close>, which dereferences the group that \<open>createShardGroup\<close> returned.
\<close>

definition should_precreate :: "Time \<Rightarrow> Time \<Rightarrow> ShardGroupInfo \<Rightarrow> bool" where
  "should_precreate from to g \<longleftrightarrow>
     \<not> Deleted g \<and> Before (EndTime g) to \<and> After (EndTime g) from"

definition precreate_policy ::
  "DataMethods \<Rightarrow> Time \<Rightarrow> Time \<Rightarrow> string \<Rightarrow> RetentionPolicyInfo \<Rightarrow> Data \<times> bool
     \<Rightarrow> error + Data \<times> bool" where
  "precreate_policy M from to di_Name rp st =
     (case st of (data, chg) \<Rightarrow>
        if ShardGroups rp = [] then Inr (data, chg)
        else
          (let g = last (ShardGroups rp) in
           if should_precreate from to g then
             (let nextShardGroupTime = Add (EndTime g) (1 * Nanosecond) in
              case Data_ShardGroupByTimestamp M data di_Name (rp_Name rp) nextShardGroupTime of
                Some rg \<Rightarrow> Inr (data, chg)
              | None \<Rightarrow>
                  (case createShardGroup M data di_Name (rp_Name rp) nextShardGroupTime of
                     (Inl err, data1) \<Rightarrow> Inr (data1, chg)
                   | (Inr None, data1) \<Rightarrow> Inl (Panic ''nil pointer dereference'')
                   | (Inr (Some newGroup), data1) \<Rightarrow> Inr (data1, True)))
           else Inr (data, chg)))"

fun precreate_policies ::
  "DataMethods \<Rightarrow> Time \<Rightarrow> Time \<Rightarrow> string \<Rightarrow> RetentionPolicyInfo list \<Rightarrow> Data \<times> bool
     \<Rightarrow> error + Data \<times> bool" where
  "precreate_policies M from to di_Name [] st = Inr st"
| "precreate_policies M from to di_Name (rp # rest) st =
     (case precreate_policy M from to di_Name rp st of
        Inl p \<Rightarrow> Inl p
      | Inr st1 \<Rightarrow> precreate_policies M from to di_Name rest st1)"

fun precreate_databases ::
  "DataMethods \<Rightarrow> Time \<Rightarrow> Time \<Rightarrow> DatabaseInfo list \<Rightarrow> Data \<times> bool \<Rightarrow> error + Data \<times> bool" where
  "precreate_databases M from to [] st = Inr st"
| "precreate_databases M from to (di # rest) st =
     (case precreate_policies M from to (db_Name di) (RetentionPolicies di) st of
        Inl p \<Rightarrow> Inl p
      | Inr st1 \<Rightarrow> precreate_databases M from to rest st1)"



text \<open>
  \<open>SetData\<close> commits a clone of its argument, and \<open>Data()\<close> returns a clone of the
  cached document. (When \<open>commit\<close> fails, \<open>SetData\<close> returns its error with the mutex
  still locked; the model does not follow the mutex.)
\<close>

definition SetData :: "snapshot_fn \<Rightarrow> Client \<Rightarrow> Data \<Rightarrow> error option \<times> Client" where
  "SetData snapshot c data = commit snapshot c (Clone data)"

definition Data_of :: "Client \<Rightarrow> Data" where
  "Data_of c = Clone (cacheData c)"

definition AcquireLease :: "Duration \<Rightarrow> Time \<Rightarrow> Client \<Rightarrow> string \<Rightarrow> error + Lease" where
  "AcquireLease DefaultLeaseDuration now c name =
     Inr \<lparr>lease_Name = name, Owner = 0, Expiration = Add now DefaultLeaseDuration\<rparr>"

subsection \<open>Pruning deleted shard groups\<close>

definition ShardGroupDeletedExpiration :: Duration where
  "ShardGroupDeletedExpiration = - 2 * 7 * 24 * Hour"

text \<open>
  The three nested loops of \<open>PruneShardGroups\<close>. The innermost one appends the groups
  it keeps to \<open>remainingShardGroups\<close> and raises the flag \<open>changed\<close> (here \<open>chg\<close>) at each group it drops.
\<close>

fun prune_groups ::
  "Time \<Rightarrow> ShardGroupInfo list \<Rightarrow> ShardGroupInfo list \<Rightarrow> bool \<Rightarrow> ShardGroupInfo list \<times> bool" where
  "prune_groups expiration [] remainingShardGroups chg = (remainingShardGroups, chg)"
| "prune_groups expiration (sgi # rest) remainingShardGroups chg =
     (if IsZero (DeletedAt sgi) \<or> \<not> After expiration (DeletedAt sgi)
      then prune_groups expiration rest (remainingShardGroups @ [sgi]) chg
      else prune_groups expiration rest remainingShardGroups True)"

fun prune_policies ::
  "Time \<Rightarrow> RetentionPolicyInfo list \<Rightarrow> bool \<Rightarrow> RetentionPolicyInfo list \<times> bool" where
  "prune_policies expiration [] chg = ([], chg)"
| "prune_policies expiration (rp # rest) chg =
     (case prune_groups expiration (ShardGroups rp) [] chg of
        (remainingShardGroups, chg1) \<Rightarrow>
          (case prune_policies expiration rest chg1 of
             (rest', chg2) \<Rightarrow> (rp\<lparr>ShardGroups := remainingShardGroups\<rparr> # rest', chg2)))"

fun prune_databases ::
  "Time \<Rightarrow> DatabaseInfo list \<Rightarrow> bool \<Rightarrow> DatabaseInfo list \<times> bool" where
  "prune_databases expiration [] chg = ([], chg)"
| "prune_databases expiration (d # rest) chg =
     (case prune_policies expiration (RetentionPolicies d) chg of
        (rps, chg1) \<Rightarrow>
          (case prune_databases expiration rest chg1 of
             (rest', chg2) \<Rightarrow> (d\<lparr>RetentionPolicies := rps\<rparr> # rest', chg2)))"

definition PruneShardGroups :: "snapshot_fn \<Rightarrow> Time \<Rightarrow> Client \<Rightarrow> error option \<times> Client" where
  "PruneShardGroups snapshot now c =
     (let expiration = Add now ShardGroupDeletedExpiration;
          data = Clone (cacheData c)
      in case prune_databases expiration (Databases data) False of
           (dbs, chg) \<Rightarrow>
             if chg then commit snapshot c (data\<lparr>Databases := dbs\<rparr>) else (None, c))"

subsection \<open>The mutating operations as one step function\<close>







section \<open>The cluster client\<close>

text \<open>
  \<open>RemoteClient\<close> sends every change as a command to a meta server and reads from the
  snapshot that its poller keeps installing.
\<close>

record RemoteClient =
  rc_tls :: bool
  rc_nodeID :: uint64
  rc_metaServers :: "string list"
  rc_changed :: nat
  rc_closing :: bool
  rc_cacheData :: Data
  rc_authCache :: "string \<rightharpoonup> authUser"

text \<open>
  The commands, with the values the client puts into them (the protobuf encoding is
  outside the model: a command carries the instant of \<open>CreateShardGroup\<close> itself where
  the wire carries \<open>UnixNano\<close>).
\<close>

datatype Command =
    CreateDataNodeCommand string string
  | DeleteDataNodeCommand uint64
  | CreateMetaNodeCommand string string uint64
  | DeleteMetaNodeCommand uint64
  | CreateDatabaseCommand string "RetentionPolicyInfo option"
  | DropDatabaseCommand string
  | CreateRetentionPolicyCommand string RetentionPolicyInfo bool
  | DropRetentionPolicyCommand string string
  | SetDefaultRetentionPolicyCommand string string
  | UpdateRetentionPolicyCommand string string "string option" "Duration option" "32 word option" bool
  | CreateUserCommand string string bool
  | UpdateUserCommand string string
  | DropUserCommand string
  | SetPrivilegeCommand string string int
  | SetAdminPrivilegeCommand string bool
  | DropShardCommand uint64
  | CreateShardGroupCommand string string Time
  | DeleteShardGroupCommand string string uint64
  | CreateContinuousQueryCommand string string string
  | DropContinuousQueryCommand string string
  | CreateSubscriptionCommand string string string string "string list"
  | DropSubscriptionCommand string string string
  | SetDataCommand Data

text \<open>
  What a server does with one request: it cannot be reached, or it answers with a
  status, a \<open>Location\<close> header (empty when the header is absent) and a body; the body
  cannot be read, cannot be decoded, or is a \<open>Response\<close> with its \<open>Index\<close> and
  \<open>Error\<close>. What \<open>http.Post\<close> hands to \<open>exec\<close>: an error, or a response.
\<close>

datatype body = ReadFailed string | Undecodable string | Response uint64 string

datatype reply = Unreachable string | Answer nat string body

datatype post_result = PostFailed string | HTTP nat string body

text \<open>
  A request on the wire has its verb, its URL and its body, the encoded command. The
  servers are a function \<open>serve\<close> from the requests made before and the request made
  now to the reply; \<open>Marshal\<close> is the error of \<open>proto.Marshal\<close> for a command, if it
  has one.
\<close>

datatype verb = POST | GET

type_synonym request = "verb \<times> string \<times> Command option"

record network =
  Marshal :: "Command \<Rightarrow> string option"
  serve :: "request list \<Rightarrow> request \<Rightarrow> reply"

text \<open>
  The world around the client: \<open>posted\<close> records the URLs handed to \<open>http.Post\<close> so
  far, one for each call of \<open>exec\<close> that got that far; \<open>sent\<close> records the requests
  made on the wire; \<open>pending\<close> holds the snapshots that the poller (\<open>pollForUpdates\<close>)
  will still install, in order; \<open>closes\<close> is what another goroutine does to the
  channel \<open>closing\<close> meanwhile: \<open>Some k\<close> when it calls \<open>Close()\<close> after \<open>k\<close> more
  tests of the channel have found it open, \<open>None\<close> when nobody closes the client.
\<close>

record world =
  posted :: "string list"
  sent :: "request list"
  pending :: "Data list"
  closes :: "nat option"

datatype 'a outcome = Returned 'a | Blocked

definition errSleep :: Duration where "errSleep = 1000000000"
definition maxRetries :: nat where "maxRetries = 10"
definition StatusOK :: nat where "StatusOK = 200"
definition StatusTemporaryRedirect :: nat where "StatusTemporaryRedirect = 307"

definition Remote_Close :: "RemoteClient \<Rightarrow> error option \<times> RemoteClient" where
  "Remote_Close c = (if rc_closing c then (None, c) else (None, c\<lparr>rc_closing := True\<rparr>))"

text \<open>
  \<open>http.Post\<close> is \<open>http.DefaultClient.Post\<close> of the standard library, and the
  repository sets no \<open>CheckRedirect\<close>: it is the library, not \<open>exec\<close>, that meets a
  redirect first. The default client follows a 301, 302 or 303 with a \<open>GET\<close> without
  body, and a 307 or 308 with the verb of the request before and the body of the first
  request (\<open>exec\<close> posts a \<open>bytes.Buffer\<close>, which can be sent again); the URL of the
  next request is the \<open>Location\<close>, taken here as the absolute URL a meta server writes.
  It hands a redirect without \<open>Location\<close> back as it is, and gives up with an error
  when ten requests have been made and the tenth is redirected again. \<open>follow\<close> is
  that loop, with the number of requests it may still make.
\<close>

definition redirectBehavior :: "verb \<Rightarrow> nat \<Rightarrow> (verb \<times> bool) option" where
  "redirectBehavior reqMethod status =
     (if status = 301 \<or> status = 302 \<or> status = 303 then Some (GET, False)
      else if status = 307 \<or> status = 308 then Some (reqMethod, True)
      else None)"

fun follow ::
  "(request list \<Rightarrow> request \<Rightarrow> reply) \<Rightarrow> Command \<Rightarrow> nat \<Rightarrow> request \<Rightarrow> request list
     \<Rightarrow> post_result \<times> request list" where
  "follow srv cmd 0 req wire = (PostFailed ''stopped after 10 redirects'', wire)"
| "follow srv cmd (Suc n) req wire =
     (case srv wire req of
        Unreachable e \<Rightarrow> (PostFailed e, wire @ [req])
      | Answer status location b \<Rightarrow>
          (case redirectBehavior (fst req) status of
             None \<Rightarrow> (HTTP status location b, wire @ [req])
           | Some (redirectMethod, includeBody) \<Rightarrow>
               if location = [] then (HTTP status location b, wire @ [req])
               else follow srv cmd n
                      (redirectMethod, location, if includeBody then Some cmd else None)
                      (wire @ [req])))"

definition http_Post ::
  "(request list \<Rightarrow> request \<Rightarrow> reply) \<Rightarrow> request list \<Rightarrow> string \<Rightarrow> Command
     \<Rightarrow> post_result \<times> request list" where
  "http_Post srv wire url cmd = follow srv cmd 10 (POST, url, Some cmd) wire"

definition exec :: "network \<Rightarrow> world \<Rightarrow> string \<Rightarrow> Command \<Rightarrow> (uint64 \<times> error option) \<times> world" where
  "exec net w url cmd =
     (case Marshal net cmd of
        Some e \<Rightarrow> ((0, Some (ErrOpaque e)), w)
      | None \<Rightarrow>
          (case http_Post (serve net) (sent w) url cmd of
             (PostFailed e, wire) \<Rightarrow>
               ((0, Some (ErrOpaque e)), w\<lparr>posted := posted w @ [url], sent := wire\<rparr>)
           | (HTTP status location b, wire) \<Rightarrow>
               (let w1 = w\<lparr>posted := posted w @ [url], sent := wire\<rparr> in
                if status = StatusTemporaryRedirect then ((0, Some (errRedirect location)), w1)
                else if status \<noteq> StatusOK then ((0, Some (ErrStatus status)), w1)
                else
                  case b of
                    ReadFailed e \<Rightarrow> ((0, Some (ErrOpaque e)), w1)
                  | Undecodable e \<Rightarrow> ((0, Some (ErrOpaque e)), w1)
                  | Response index es \<Rightarrow>
                      if es \<noteq> [] then ((0, Some (errCommand es)), w1) else ((index, None), w1))))"

text \<open>
  \<open>updateAuthCache\<close> keeps the cache entry of a name exactly when some user of the new
  snapshot has that name and the hash the entry was made for.
\<close>

definition updateAuthCache :: "RemoteClient \<Rightarrow> RemoteClient" where
  "updateAuthCache c =
     c\<lparr>rc_authCache := (\<lambda>name.
          case rc_authCache c name of
            None \<Rightarrow> None
          | Some cached \<Rightarrow>
              if list_ex (\<lambda>userInfo. user_Name userInfo = name \<and> bhash cached = Hash userInfo)
                   (Users (rc_cacheData c))
              then Some cached else None)\<rparr>"

text \<open>The critical section of \<open>pollForUpdates\<close> for one snapshot.\<close>

definition install :: "RemoteClient \<Rightarrow> Data \<Rightarrow> RemoteClient" where
  "install c data =
     (let idx = Index (rc_cacheData c);
          c1 = updateAuthCache (c\<lparr>rc_cacheData := data\<rparr>)
      in if idx < Index data then c1\<lparr>rc_changed := Suc (rc_changed c1)\<rparr> else c1)"

text \<open>
  \<open>waitForIndex\<close> returns once the cached index has reached \<open>idx\<close>; until then it
  waits for the channel \<open>changed\<close>, that is for the poller to install a snapshot with a
  greater index. (A snapshot whose index is not greater closes no channel, and cannot
  satisfy the test either.) When the poller has nothing more to install the call never
  returns: \<open>None\<close>.
\<close>

fun waitForIndex :: "RemoteClient \<Rightarrow> Data list \<Rightarrow> uint64 \<Rightarrow> (RemoteClient \<times> Data list) option" where
  "waitForIndex c [] idx = (if Index (rc_cacheData c) \<ge> idx then Some (c, []) else None)"
| "waitForIndex c (data # rest) idx =
     (if Index (rc_cacheData c) \<ge> idx then Some (c, data # rest)
      else waitForIndex (install c data) rest idx)"

text \<open>
  The URL of the next attempt: the redirect target if one is set, else the execute URL
  of \<open>metaServers[currentServer]\<close>, with \<open>currentServer\<close> wrapped to 0 past the end;
  \<open>None\<close> is the index out of range of an empty server list.
\<close>

definition next_url :: "RemoteClient \<Rightarrow> nat \<Rightarrow> string \<Rightarrow> (string \<times> nat) option" where
  "next_url c currentServer redirectServer =
     (if redirectServer \<noteq> [] then Some (redirectServer, currentServer)
      else
        (let cs = (if currentServer \<ge> length (rc_metaServers c) then 0 else currentServer) in
         if cs < length (rc_metaServers c)
         then Some ((if rc_tls c then ''https'' else ''http'') @ ''://''
                      @ rc_metaServers c ! cs @ ''/execute'', cs)
         else None))"

fun redirect_of :: "error \<Rightarrow> string option" where
  "redirect_of (errRedirect host) = Some host"
| "redirect_of other = None"

fun is_errCommand :: "error \<Rightarrow> bool" where
  "is_errCommand (errCommand msg) = True"
| "is_errCommand other = False"

fun is_Panic :: "error \<Rightarrow> bool" where
  "is_Panic (Panic msg) = True"
| "is_Panic other = False"

text \<open>
  The loop of \<open>retryUntilExec\<close>, with its three variables \<open>tries\<close>, \<open>currentServer\<close>
  and \<open>redirectServer\<close>. Every round begins with the test of the channel \<open>closing\<close>:
  the client was closed before, or another goroutine closes it now (\<open>closes = Some 0\<close>),
  or the round goes on and one test more lies behind (\<open>elapse\<close>). The poller installs
  its snapshots while the call waits in \<open>waitForIndex\<close>.
\<close>

definition elapse :: "world \<Rightarrow> world" where
  "elapse w = w\<lparr>closes := map_option (\<lambda>k. k - 1) (closes w)\<rparr>"

function retry_loop ::
  "network \<Rightarrow> Command \<Rightarrow> RemoteClient \<Rightarrow> world \<Rightarrow> nat \<Rightarrow> nat \<Rightarrow> string
     \<Rightarrow> error option outcome \<times> RemoteClient \<times> world" where
  "retry_loop net cmd c w tries currentServer redirectServer =
     (if rc_closing c then (Returned None, c, w)
      else if closes w = Some 0 then (Returned None, snd (Remote_Close c), w\<lparr>closes := None\<rparr>)
      else
        case next_url c currentServer redirectServer of
          None \<Rightarrow> (Returned (Some (Panic ''index out of range'')), c, elapse w)
        | Some (url, cs) \<Rightarrow>
            (case exec net (elapse w) url cmd of
               ((index, None), w1) \<Rightarrow>
                 (case waitForIndex c (pending w1) index of
                    None \<Rightarrow> (Blocked, c, w1)
                  | Some (c1, rest) \<Rightarrow> (Returned None, c1, w1\<lparr>pending := rest\<rparr>))
             | ((index, Some err), w1) \<Rightarrow>
                 if Suc tries > maxRetries then (Returned (Some err), c, w1)
                 else
                   (case redirect_of err of
                      Some host \<Rightarrow> retry_loop net cmd c w1 (Suc tries) (Suc cs) host
                    | None \<Rightarrow>
                        if is_errCommand err then (Returned (Some err), c, w1)
                        else retry_loop net cmd c w1 (Suc tries) (Suc cs) [])))"
  by pat_completeness auto
termination
  by (relation "measure (\<lambda>(net, cmd, c, w, tries, currentServer, redirectServer).
        Suc maxRetries - tries)") auto

definition retryUntilExec ::
  "network \<Rightarrow> RemoteClient \<Rightarrow> world \<Rightarrow> Command \<Rightarrow> error option outcome \<times> RemoteClient \<times> world" where
  "retryUntilExec net c w cmd = retry_loop net cmd c w 0 0 []"


subsection \<open>Reads of the cluster client\<close>

definition Remote_Database :: "RemoteClient \<Rightarrow> string \<Rightarrow> DatabaseInfo option" where
  "Remote_Database c name = find (\<lambda>d. db_Name d = name) (Databases (rc_cacheData c))"

definition Remote_RetentionPolicy ::
  "RemoteClient \<Rightarrow> string \<Rightarrow> string \<Rightarrow> error + RetentionPolicyInfo option" where
  "Remote_RetentionPolicy c database name =
     (case Remote_Database c database of
        None \<Rightarrow> Inl (ErrDatabaseNotFound database)
      | Some db \<Rightarrow> Inr (db_RetentionPolicy db name))"




subsection \<open>Operations that return what \<open>retryUntilExec\<close> returns\<close>


















subsection \<open>Operations that read the cache after \<open>retryUntilExec\<close>\<close>

text \<open>
  \<open>then_read r f\<close>: when \<open>retryUntilExec\<close> has returned nil, the operation goes on with
  \<open>f\<close> on the client as the call left it; its error is returned as it is, and a call
  that never returns leaves the operation waiting.
\<close>

definition then_read ::
  "error option outcome \<times> RemoteClient \<times> world \<Rightarrow> (RemoteClient \<Rightarrow> (error + 'a) \<times> RemoteClient)
     \<Rightarrow> (error + 'a) outcome \<times> RemoteClient \<times> world" where
  "then_read r f =
     (case r of
        (Blocked, c1, w1) \<Rightarrow> (Blocked, c1, w1)
      | (Returned (Some err), c1, w1) \<Rightarrow> (Returned (Inl err), c1, w1)
      | (Returned None, c1, w1) \<Rightarrow> (case f c1 of (v, c2) \<Rightarrow> (Returned v, c2, w1)))"




text \<open>
  \<open>CreateDatabaseWithRetentionPolicy\<close> compares \<open>*spec.ReplicaN\<close> and
  \<open>*spec.Duration\<close> with an existing policy of the name: a nil pointer there is a
  panic.
\<close>

definition Remote_CreateDatabaseWithRetentionPolicy ::
  "DataMethods \<Rightarrow> network \<Rightarrow> RemoteClient \<Rightarrow> world \<Rightarrow> string \<Rightarrow> RetentionPolicySpec option
     \<Rightarrow> (error + DatabaseInfo) outcome \<times> RemoteClient \<times> world" where
  "Remote_CreateDatabaseWithRetentionPolicy M net c w name spec0 =
     (case spec0 of
        None \<Rightarrow> (Returned (Inl ErrNilSpec), c, w)
      | Some spec \<Rightarrow>
          if DurationTooLow spec then (Returned (Inl ErrRetentionPolicyDurationTooLow), c, w)
          else
            (let send = then_read
                   (retryUntilExec net c w
                      (CreateDatabaseCommand name (Some (NewRetentionPolicyInfo M spec))))
                   (\<lambda>c1. case Remote_Database c1 name of
                            None \<Rightarrow> (Inl ErrDatabaseNotExists, c1)
                          | Some db \<Rightarrow> (Inr db, c1))
             in case Remote_Database c name of
                  None \<Rightarrow> send
                | Some db \<Rightarrow>
                    (case db_RetentionPolicy db (spec_Name spec) of
                       None \<Rightarrow> send
                     | Some rp \<Rightarrow>
                         (case (spec_ReplicaN spec, spec_Duration spec) of
                            (Some n, Some d) \<Rightarrow>
                              if ReplicaN rp \<noteq> n \<or> rp_Duration rp \<noteq> d
                              then (Returned (Inl ErrRetentionPolicyConflict), c, w)
                              else (Returned (Inr db), c, w)
                          | (Some n, None) \<Rightarrow>
                              if ReplicaN rp \<noteq> n
                              then (Returned (Inl ErrRetentionPolicyConflict), c, w)
                              else (Returned (Inl (Panic ''nil pointer dereference'')), c, w)
                          | (None, _) \<Rightarrow>
                              (Returned (Inl (Panic ''nil pointer dereference'')), c, w)))))"

definition Remote_CreateRetentionPolicy ::
  "DataMethods \<Rightarrow> network \<Rightarrow> RemoteClient \<Rightarrow> world \<Rightarrow> string \<Rightarrow> RetentionPolicySpec \<Rightarrow> bool
     \<Rightarrow> (error + RetentionPolicyInfo option) outcome \<times> RemoteClient \<times> world" where
  "Remote_CreateRetentionPolicy M net c w database spec makeDefault =
     (case Remote_RetentionPolicy c database (spec_Name spec) of
        Inr (Some rp) \<Rightarrow> (Returned (Inr (Some rp)), c, w)
      | _ \<Rightarrow>
          if DurationTooLow spec then (Returned (Inl ErrRetentionPolicyDurationTooLow), c, w)
          else
            then_read
              (retryUntilExec net c w
                 (CreateRetentionPolicyCommand database (NewRetentionPolicyInfo M spec) makeDefault))
              (\<lambda>c1. (Remote_RetentionPolicy c1 database (spec_Name spec), c1)))"


definition Remote_CreateShardGroup ::
  "DataMethods \<Rightarrow> network \<Rightarrow> RemoteClient \<Rightarrow> world \<Rightarrow> string \<Rightarrow> string \<Rightarrow> Time
     \<Rightarrow> (error + ShardGroupInfo option) outcome \<times> RemoteClient \<times> world" where
  "Remote_CreateShardGroup M net c w database rp timestamp =
     (case Data_ShardGroupByTimestamp M (rc_cacheData c) database rp timestamp of
        Some sg \<Rightarrow> (Returned (Inr (Some sg)), c, w)
      | None \<Rightarrow>
          then_read (retryUntilExec net c w (CreateShardGroupCommand database rp timestamp))
            (\<lambda>c1. case Remote_RetentionPolicy c1 database rp of
                     Inl err \<Rightarrow> (Inl err, c1)
                   | Inr None \<Rightarrow> (Inl ErrRetentionPolicyDeleted, c1)
                   | Inr (Some rpi) \<Rightarrow> (Inr (rpi_ShardGroupByTimestamp M rpi timestamp), c1)))"

definition Remote_TruncateShardGroups :: "RemoteClient \<Rightarrow> Time \<Rightarrow> error option" where
  "Remote_TruncateShardGroups c t = None"

definition Remote_PruneShardGroups :: "RemoteClient \<Rightarrow> error option" where
  "Remote_PruneShardGroups c = None"

subsection \<open>Precreation in the cluster client\<close>

text \<open>
  The body of the inner loop of \<open>RemoteClient.PrecreateShardGroups\<close> for one policy:
  \<open>Returned None\<close> when the loop goes on. An error of \<open>CreateShardGroup\<close> is logged and
  the loop goes on; after a success the code logs \<open>newRg.ID\<close>, a dereference of the
  group returned. The outer loop returns nil at the end of its first round.
\<close>

definition remote_precreate_policy ::
  "DataMethods \<Rightarrow> network \<Rightarrow> Time \<Rightarrow> Time \<Rightarrow> string \<Rightarrow> RetentionPolicyInfo \<Rightarrow> RemoteClient \<Rightarrow> world
     \<Rightarrow> error option outcome \<times> RemoteClient \<times> world" where
  "remote_precreate_policy M net from to di_Name rp c w =
     (if ShardGroups rp = [] then (Returned None, c, w)
      else
        (let rg = last (ShardGroups rp) in
         if should_precreate from to rg then
           (let nextShardGroupTime = Add (EndTime rg) (1 * Nanosecond) in
            case Remote_CreateShardGroup M net c w di_Name (rp_Name rp) nextShardGroupTime of
              (Blocked, c1, w1) \<Rightarrow> (Blocked, c1, w1)
            | (Returned (Inl err), c1, w1) \<Rightarrow>
                if is_Panic err then (Returned (Some err), c1, w1) else (Returned None, c1, w1)
            | (Returned (Inr None), c1, w1) \<Rightarrow>
                (Returned (Some (Panic ''nil pointer dereference'')), c1, w1)
            | (Returned (Inr (Some newRg)), c1, w1) \<Rightarrow> (Returned None, c1, w1))
         else (Returned None, c, w)))"

fun remote_precreate_policies ::
  "DataMethods \<Rightarrow> network \<Rightarrow> Time \<Rightarrow> Time \<Rightarrow> string \<Rightarrow> RetentionPolicyInfo list \<Rightarrow> RemoteClient
     \<Rightarrow> world \<Rightarrow> error option outcome \<times> RemoteClient \<times> world" where
  "remote_precreate_policies M net from to di_Name [] c w = (Returned None, c, w)"
| "remote_precreate_policies M net from to di_Name (rp # rest) c w =
     (case remote_precreate_policy M net from to di_Name rp c w of
        (Returned None, c1, w1) \<Rightarrow> remote_precreate_policies M net from to di_Name rest c1 w1
      | stopped \<Rightarrow> stopped)"

definition Remote_PrecreateShardGroups ::
  "DataMethods \<Rightarrow> network \<Rightarrow> RemoteClient \<Rightarrow> world \<Rightarrow> Time \<Rightarrow> Time
     \<Rightarrow> error option outcome \<times> RemoteClient \<times> world" where
  "Remote_PrecreateShardGroups M net c w from to =
     (case Databases (rc_cacheData c) of
        [] \<Rightarrow> (Returned None, c, w)
      | di # others \<Rightarrow>
          remote_precreate_policies M net from to (db_Name di) (RetentionPolicies di) c w)"


section \<open>Concrete collaborators\<close>

text \<open>
  Modelled from the spec: \<open>Data.CreateUser\<close>, \<open>Data.UpdateUser\<close>, \<open>Data.DropUser\<close>,
  \<open>Data.CreateDatabase\<close> and \<open>Data.DropDatabase\<close> of \<open>meta/data.go\<close>, after section
  4.1 of the specification: the user commands are direct mutations, \<open>CreateUser\<close> is
  idempotent when hash and admin flag match, \<open>CreateDatabase\<close> appends unless the
  database is present, \<open>DropDatabase\<close> fails when it is absent.
\<close>

definition spec_CreateUser :: "Data \<Rightarrow> string \<Rightarrow> string \<Rightarrow> bool \<Rightarrow> error option \<times> Data" where
  "spec_CreateUser data name hashed admin =
     (case Data_user data name of
        Some u \<Rightarrow>
          if Hash u = hashed \<and> Admin u = admin then (None, data) else (Some ErrUserExists, data)
      | None \<Rightarrow>
          (None, data\<lparr>Users := Users data @
             [\<lparr>user_Name = name, Hash = hashed, Admin = admin, Privileges = []\<rparr>]\<rparr>))"

definition spec_UpdateUser :: "Data \<Rightarrow> string \<Rightarrow> string \<Rightarrow> error option \<times> Data" where
  "spec_UpdateUser data name hashed =
     (case Data_user data name of
        None \<Rightarrow> (Some ErrUserNotFound, data)
      | Some u \<Rightarrow>
          (None, data\<lparr>Users :=
             map (\<lambda>v. if user_Name v = name then v\<lparr>Hash := hashed\<rparr> else v) (Users data)\<rparr>))"

definition spec_DropUser :: "Data \<Rightarrow> string \<Rightarrow> error option \<times> Data" where
  "spec_DropUser data name =
     (case Data_user data name of
        None \<Rightarrow> (Some ErrUserNotFound, data)
      | Some u \<Rightarrow> (None, data\<lparr>Users := filter (\<lambda>v. user_Name v \<noteq> name) (Users data)\<rparr>))"

definition spec_CreateDatabase :: "Data \<Rightarrow> string \<Rightarrow> error option \<times> Data" where
  "spec_CreateDatabase data name =
     (case Data_Database data name of
        Some db \<Rightarrow> (None, data)
      | None \<Rightarrow>
          (None, data\<lparr>Databases := Databases data @
             [\<lparr>db_Name = name, DefaultRetentionPolicy = [], RetentionPolicies = [],
               ContinuousQueries = []\<rparr>]\<rparr>))"

definition spec_DropDatabase :: "Data \<Rightarrow> string \<Rightarrow> error option \<times> Data" where
  "spec_DropDatabase data name =
     (case Data_Database data name of
        None \<Rightarrow> (Some (ErrDatabaseNotFound name), data)
      | Some db \<Rightarrow> (None, data\<lparr>Databases := filter (\<lambda>d. db_Name d \<noteq> name) (Databases data)\<rparr>))"

text \<open>
  Modelled from the spec: \<open>Data.CreateRetentionPolicy\<close> of \<open>meta/data.go\<close>, after
  section 4.1: it fails with a name conflict if the name exists with different settings,
  and promotes the policy to default iff \<open>makeDefault\<close>.
\<close>

definition same_settings :: "RetentionPolicyInfo \<Rightarrow> RetentionPolicyInfo \<Rightarrow> bool" where
  "same_settings a b \<longleftrightarrow>
     ReplicaN a = ReplicaN b \<and> rp_Duration a = rp_Duration b \<and>
     ShardGroupDuration a = ShardGroupDuration b"

definition spec_CreateRetentionPolicy ::
  "Data \<Rightarrow> string \<Rightarrow> RetentionPolicyInfo \<Rightarrow> bool \<Rightarrow> error option \<times> Data" where
  "spec_CreateRetentionPolicy data database rpi makeDefault =
     (case Data_Database data database of
        None \<Rightarrow> (Some (ErrDatabaseNotFound database), data)
      | Some db \<Rightarrow>
          (case db_RetentionPolicy db (rp_Name rpi) of
             Some rp \<Rightarrow>
               if same_settings rp rpi
               then (None, data\<lparr>Databases := map (\<lambda>d.
                       if db_Name d = database \<and> makeDefault
                       then d\<lparr>DefaultRetentionPolicy := rp_Name rpi\<rparr> else d) (Databases data)\<rparr>)
               else (Some ErrNameConflict, data)
           | None \<Rightarrow>
               (None, data\<lparr>Databases := map (\<lambda>d.
                  if db_Name d = database
                  then d\<lparr>RetentionPolicies := RetentionPolicies d @ [rpi],
                        DefaultRetentionPolicy :=
                          (if makeDefault then rp_Name rpi else DefaultRetentionPolicy d)\<rparr>
                  else d) (Databases data)\<rparr>)))"

text \<open>
  Modelled from the spec: the table of invariant 6, by which \<open>ShardGroupDuration\<close>
  derives from \<open>Duration\<close> when unspecified: \<open>Duration = 0\<close> gives 7 days,
  \<open>Duration \<le> 2d\<close> one hour, \<open>Duration \<le> 180d\<close> one day, any other 7 days.
\<close>

definition shardGroupDuration :: "Duration \<Rightarrow> Duration" where
  "shardGroupDuration d =
     (if d = 0 then 7 * 24 * Hour
      else if d \<le> 2 * 24 * Hour then Hour
      else if d \<le> 180 * 24 * Hour then 24 * Hour
      else 7 * 24 * Hour)"

definition normalisedShardDuration :: "Duration \<Rightarrow> Duration \<Rightarrow> Duration" where
  "normalisedShardDuration sgd d = (if sgd = 0 then shardGroupDuration d else sgd)"

text \<open>
  An implementation of \<open>DataMethods\<close> to run the clients on: users, databases and the
  creation of policies as above; every other change is declined with an error and
  leaves the document as it is. Its default policy follows scenario S2 of the
  specification (\<open>autogen\<close>, infinite duration, one replica), and its policy
  constructor takes the shard group duration that the request leaves unspecified from
  the table of invariant 6.
\<close>

definition declined :: "error option" where
  "declined = Some (ErrOpaque ''not supported'')"

definition small_Data :: DataMethods where
  "small_Data =
     \<lparr>Data_CreateDatabase = spec_CreateDatabase,
      Data_DropDatabase = spec_DropDatabase,
      Data_CreateRetentionPolicy = spec_CreateRetentionPolicy,
      Data_DropRetentionPolicy = (\<lambda>data database name. (declined, data)),
      Data_SetDefaultRetentionPolicy = (\<lambda>data database name. (declined, data)),
      Data_UpdateRetentionPolicy = (\<lambda>data database name rpu makeDefault. (declined, data)),
      Data_CreateUser = spec_CreateUser,
      Data_UpdateUser = spec_UpdateUser,
      Data_DropUser = spec_DropUser,
      Data_SetPrivilege = (\<lambda>data username database p. (declined, data)),
      Data_SetAdminPrivilege = (\<lambda>data username admin. (declined, data)),
      Data_DropShard = (\<lambda>data ident. data),
      Data_TruncateShardGroups = (\<lambda>data t. data),
      Data_CreateShardGroup = (\<lambda>data database rp timestamp. (declined, data)),
      Data_DeleteShardGroup = (\<lambda>data database rp ident. (declined, data)),
      Data_CreateContinuousQuery = (\<lambda>data database name query. (declined, data)),
      Data_DropContinuousQuery = (\<lambda>data database name. (declined, data)),
      Data_CreateSubscription = (\<lambda>data database rp name mode destinations. (declined, data)),
      Data_DropSubscription = (\<lambda>data database rp name. (declined, data)),
      Data_ShardGroupByTimestamp = (\<lambda>data database rp timestamp. None),
      rpi_ShardGroupByTimestamp = (\<lambda>rpi timestamp. None),
      DefaultRetentionPolicyInfo =
        \<lparr>rp_Name = ''autogen'', ReplicaN = 1, rp_Duration = 0, ShardGroupDuration = 7 * 24 * Hour,
         ShardGroups = [], Subscriptions = []\<rparr>,
      NewRetentionPolicyInfo = (\<lambda>spec.
        \<lparr>rp_Name = spec_Name spec,
         ReplicaN = (case spec_ReplicaN spec of None \<Rightarrow> 1 | Some n \<Rightarrow> n),
         rp_Duration = (case spec_Duration spec of None \<Rightarrow> 0 | Some d \<Rightarrow> d),
         ShardGroupDuration =
           normalisedShardDuration (spec_ShardGroupDuration spec)
             (case spec_Duration spec of None \<Rightarrow> 0 | Some d \<Rightarrow> d),
         ShardGroups = [], Subscriptions = []\<rparr>),
      Matches = (\<lambda>spec rpi. False)\<rparr>"

text \<open>
  Hash functions without collisions, for running \<open>Authenticate\<close>: the bcrypt hash of a
  password is the password under a tag, and SHA-256 is the identity on byte strings.
\<close>

definition ideal_crypto :: Crypto where
  "ideal_crypto =
     \<lparr>GenerateFromPassword = (\<lambda>password. Inr (''$2a$'' @ password)),
      CompareHashAndPassword = (\<lambda>hashed password. hashed = ''$2a$'' @ password),
      Sum256 = (\<lambda>bytes. bytes)\<rparr>"

definition disk_ok :: snapshot_fn where
  "disk_ok dir data = None"

definition empty_Data :: Data where
  "empty_Data =
     \<lparr>ClusterID = 0, Index = 0, MaxNodeID = 0, MaxShardGroupID = 0, MaxShardID = 0,
      Databases = [], DataNodes = [], MetaNodes = [], Users = []\<rparr>"

definition NewClient :: "string \<Rightarrow> bool \<Rightarrow> uint64 \<Rightarrow> Client" where
  "NewClient dir autoCreate rnd =
     \<lparr>nodeID = 0, closing = False, changed = 0,
      cacheData = empty_Data\<lparr>ClusterID := rnd, Index := 1\<rparr>,
      authCache = Map.empty, path = dir, retentionPolicyAutoCreate = autoCreate\<rparr>"

text \<open>A cluster client as \<open>NewRemoteClient\<close> and \<open>Open\<close> leave it, before any snapshot.\<close>

definition NewRemoteClient :: RemoteClient where
  "NewRemoteClient =
     \<lparr>rc_tls = False, rc_nodeID = 0, rc_metaServers = [], rc_changed = 0, rc_closing = False,
      rc_cacheData = empty_Data, rc_authCache = Map.empty\<rparr>"


section \<open>Vocabulary of the properties\<close>

text \<open>
  What \<open>PruneShardGroups\<close> keeps, as the code tests it, and what the specification asks
  it to remove: a group whose \<open>DeletedAt\<close> is set and lies more than fourteen days
  before the current time.
\<close>

definition keep_group :: "Time \<Rightarrow> ShardGroupInfo \<Rightarrow> bool" where
  "keep_group expiration sgi \<longleftrightarrow> IsZero (DeletedAt sgi) \<or> \<not> After expiration (DeletedAt sgi)"

definition expired :: "Time \<Rightarrow> ShardGroupInfo \<Rightarrow> bool" where
  "expired now sgi \<longleftrightarrow> DeletedAt sgi \<noteq> 0 \<and> now - DeletedAt sgi > 14 * 24 * Hour"

definition without_expired :: "Time \<Rightarrow> DatabaseInfo list \<Rightarrow> DatabaseInfo list" where
  "without_expired now dbs =
     map (\<lambda>d. d\<lparr>RetentionPolicies :=
            map (\<lambda>rp. rp\<lparr>ShardGroups := filter (\<lambda>sgi. \<not> expired now sgi) (ShardGroups rp)\<rparr>)
              (RetentionPolicies d)\<rparr>) dbs"


text \<open>
  The paths that return nil before any commit, each with the test the code makes for
  it. \<open>CreateDatabase\<close> returns the database that is there already; \<open>CreateUser\<close>
  returns the user that is there already when the password fits its hash and the admin
  flag is the same; \<open>CreateShardGroup\<close> returns the group that already holds the
  timestamp; \<open>PruneShardGroups\<close> commits only when it dropped a group, that is when some
  group is expired; \<open>PrecreateShardGroups\<close> commits only when its loops end with the
  flag \<open>changed\<close> set, that is when some call of \<open>createShardGroup\<close> returned a group.
  No other operation has such a path.
\<close>

definition creates_group ::
  "DataMethods \<Rightarrow> Time \<Rightarrow> Time \<Rightarrow> string \<Rightarrow> RetentionPolicyInfo \<Rightarrow> Data \<Rightarrow> bool" where
  "creates_group M lo hi di_Name rp data \<longleftrightarrow>
     ShardGroups rp \<noteq> [] \<and> should_precreate lo hi (last (ShardGroups rp)) \<and>
     Data_ShardGroupByTimestamp M data di_Name (rp_Name rp)
       (Add (EndTime (last (ShardGroups rp))) (1 * Nanosecond)) = None \<and>
     (case fst (createShardGroup M data di_Name (rp_Name rp)
                  (Add (EndTime (last (ShardGroups rp))) (1 * Nanosecond))) of
        Inr (Some newGroup) \<Rightarrow> True
      | other \<Rightarrow> False)"




text \<open>
  The errors \<open>exec\<close> can return, and what a call of \<open>retryUntilExec\<close> can end in:
  nil after a response without error whose index the cache has reached, or nil on a
  client that is closed; an error of \<open>exec\<close> (or the panic of an empty server list);
  or an endless wait.
\<close>

definition exec_error :: "error \<Rightarrow> bool" where
  "exec_error e \<longleftrightarrow>
     (\<exists>t. e = ErrOpaque t) \<or> (\<exists>h. e = errRedirect h) \<or> (\<exists>n. e = ErrStatus n) \<or>
     (\<exists>m. e = errCommand m)"

definition answered :: "network \<Rightarrow> RemoteClient \<Rightarrow> world \<Rightarrow> bool" where
  "answered net c' w' \<longleftrightarrow>
     (\<exists>history req loc idx.
        serve net history req = Answer StatusOK loc (Response idx []) \<and>
        sent w' = history @ [req] \<and> idx \<le> Index (rc_cacheData c'))"

definition loop_result ::
  "network \<Rightarrow> error option outcome \<times> RemoteClient \<times> world \<Rightarrow> bool" where
  "loop_result net res \<longleftrightarrow>
     (case res of
        (Returned None, c', w') \<Rightarrow> answered net c' w' \<or> rc_closing c'
      | (Returned (Some e), c', w') \<Rightarrow> exec_error e \<or> e = Panic ''index out of range''
      | (Blocked, c', w') \<Rightarrow> True)"

text \<open>
  The collaborators of the single-process client never answer with
  \<open>ErrRetentionPolicyDurationTooLow\<close> of their own.
\<close>

definition never_too_low :: "DataMethods \<Rightarrow> snapshot_fn \<Rightarrow> bool" where
  "never_too_low M snapshot \<longleftrightarrow>
     (\<forall>data a. fst (Data_CreateDatabase M data a) \<noteq> Some ErrRetentionPolicyDurationTooLow) \<and>
     (\<forall>data a b d. fst (Data_CreateRetentionPolicy M data a b d)
        \<noteq> Some ErrRetentionPolicyDurationTooLow) \<and>
     (\<forall>dir data. snapshot dir data \<noteq> Some ErrRetentionPolicyDurationTooLow)"

section \<open>Concrete runs\<close>

text \<open>
  A user is created with the password \<open>old\<close> and logs in, which fills the cache; the
  user is dropped and created again with the password \<open>new\<close>.
\<close>

definition fresh :: Client where
  "fresh = NewClient ''/var/lib/meta'' False 7"

definition created :: Client where
  "created = snd (CreateUser small_Data ideal_crypto disk_ok fresh ''u'' ''old'' False)"

definition logged_in :: Client where
  "logged_in = snd (Authenticate ideal_crypto (Inr ''salt'') created ''u'' ''old'')"

definition dropped :: Client where
  "dropped = snd (DropUser small_Data disk_ok logged_in ''u'')"

definition recreated :: Client where
  "recreated = snd (CreateUser small_Data ideal_crypto disk_ok dropped ''u'' ''new'' False)"

definition new_user :: UserInfo where
  "new_user = \<lparr>user_Name = ''u'', Hash = ''$2a$new'', Admin = False, Privileges = []\<rparr>"

text \<open>
  A policy with a live group, a group deleted fifteen days before day 100 and a group
  deleted on day 99.
\<close>

definition Day :: Duration where "Day = 24 * Hour"

definition group_at :: "uint64 \<Rightarrow> Time \<Rightarrow> Time \<Rightarrow> Time \<Rightarrow> ShardGroupInfo" where
  "group_at ident start stop deleted =
     \<lparr>sg_ID = ident, StartTime = start, EndTime = stop, DeletedAt = deleted, TruncatedAt = 0,
      Shards = [\<lparr>shard_ID = ident, Owners = []\<rparr>]\<rparr>"

definition policy_of :: "string \<Rightarrow> Duration \<Rightarrow> ShardGroupInfo list \<Rightarrow> RetentionPolicyInfo" where
  "policy_of name d groups =
     \<lparr>rp_Name = name, ReplicaN = 1, rp_Duration = d, ShardGroupDuration = 7 * Day,
      ShardGroups = groups, Subscriptions = []\<rparr>"

definition database_of :: "string \<Rightarrow> RetentionPolicyInfo list \<Rightarrow> DatabaseInfo" where
  "database_of name rps =
     \<lparr>db_Name = name, DefaultRetentionPolicy = [], RetentionPolicies = rps, ContinuousQueries = []\<rparr>"

definition three_groups :: Client where
  "three_groups =
     fresh\<lparr>cacheData := (cacheData fresh)\<lparr>Databases :=
       [database_of ''db0''
          [policy_of ''rp0'' 0
             [group_at 1 (70 * Day) (77 * Day) 0,
              group_at 2 (77 * Day) (84 * Day) (85 * Day),
              group_at 3 (84 * Day) (91 * Day) (99 * Day)]]]\<rparr>\<rparr>"

text \<open>
  Cluster clients: one that knows a single server; one whose snapshot holds a database
  without policies followed by a database whose policy ends, live, at instant 200; one
  whose snapshot holds the policy \<open>rp1\<close> of two hours. Servers that accept every
  command at index 5; servers that answer every request with a 307 without \<open>Location\<close>,
  with a 404, with a 503; a follower \<open>a\<close> that redirects to \<open>b\<close>, where \<open>b\<close> is
  the leader and accepts, or where \<open>b\<close> answers with a 307 without \<open>Location\<close>.
\<close>

definition one_server :: RemoteClient where
  "one_server = NewRemoteClient\<lparr>rc_metaServers := [''a:8091'']\<rparr>"

definition two_databases :: RemoteClient where
  "two_databases =
     one_server\<lparr>rc_cacheData := empty_Data\<lparr>Index := 3, Databases :=
       [database_of ''db1'' [],
        database_of ''db2'' [policy_of ''rp0'' 0 [group_at 1 100 200 0]]]\<rparr>\<rparr>"

definition with_rp1 :: RemoteClient where
  "with_rp1 =
     one_server\<lparr>rc_cacheData := empty_Data\<lparr>Index := 3, Databases :=
       [database_of ''db0'' [policy_of ''rp1'' (2 * Hour) []]]\<rparr>\<rparr>"

definition with_db0 :: Client where
  "with_db0 = snd (CreateDatabase small_Data disk_ok fresh ''db0'')"

definition hour_spec :: RetentionPolicySpec where
  "hour_spec =
     \<lparr>spec_Name = ''rp1'', spec_ReplicaN = Some 1, spec_Duration = Some (60 * 60 * 1000000000),
      spec_ShardGroupDuration = 0\<rparr>"

definition short_spec :: RetentionPolicySpec where
  "short_spec =
     \<lparr>spec_Name = ''rp1'', spec_ReplicaN = Some 1, spec_Duration = Some (59 * 60 * 1000000000),
      spec_ShardGroupDuration = 0\<rparr>"

definition quiet :: world where
  "quiet = \<lparr>posted = [], sent = [], pending = [], closes = None\<rparr>"

definition accepting :: network where
  "accepting =
     \<lparr>Marshal = (\<lambda>cmd. None),
      serve = (\<lambda>history req. Answer 200 [] (Response 5 []))\<rparr>"

definition bare_redirect :: network where
  "bare_redirect =
     \<lparr>Marshal = (\<lambda>cmd. None),
      serve = (\<lambda>history req. Answer 307 [] (Undecodable []))\<rparr>"

definition not_found :: network where
  "not_found =
     \<lparr>Marshal = (\<lambda>cmd. None),
      serve = (\<lambda>history req. Answer 404 [] (Undecodable []))\<rparr>"

definition unavailable :: network where
  "unavailable =
     \<lparr>Marshal = (\<lambda>cmd. None),
      serve = (\<lambda>history req. Answer 503 [] (Undecodable []))\<rparr>"

definition redirect_to_leader :: network where
  "redirect_to_leader =
     \<lparr>Marshal = (\<lambda>cmd. None),
      serve = (\<lambda>history req.
         if fst (snd req) = ''http://a:8091/execute''
         then Answer 307 ''http://b:8091/execute'' (Undecodable [])
         else Answer 200 [] (Response 5 []))\<rparr>"

definition redirect_to_nowhere :: network where
  "redirect_to_nowhere =
     \<lparr>Marshal = (\<lambda>cmd. None),
      serve = (\<lambda>history req.
         if fst (snd req) = ''http://a:8091/execute''
         then Answer 307 ''http://b:8091/execute'' (Undecodable [])
         else Answer 307 [] (Undecodable []))\<rparr>"


section \<open>Commits of the single-process client\<close>

lemma commit_None:
  "commit snapshot c data = (None, c') \<Longrightarrow>
     c' = c\<lparr>cacheData := data\<lparr>Index := Index data + 1\<rparr>, changed := Suc (changed c)\<rparr>"
  by (auto simp: commit_def Let_def split: option.splits)


lemma commit_error:
  "commit snapshot c data = (Some e, c') \<Longrightarrow> c' = c \<and> (\<exists>d. snapshot (path c) d = Some e)"
  by (auto simp: commit_def Let_def split: option.splits)


lemmas run_defs = CreateUser_def DropUser_def UpdateUser_def Authenticate_def CreateDatabase_def
  CreateRetentionPolicy_def mutate_def commit_def Clone_def Data_user_def Data_Database_def
  db_RetentionPolicy_def spec_CreateUser_def spec_DropUser_def spec_UpdateUser_def
  spec_CreateDatabase_def spec_DropDatabase_def spec_CreateRetentionPolicy_def same_settings_def
  small_Data_def ideal_crypto_def disk_ok_def NewClient_def empty_Data_def fresh_def
  cache_accepts_def hashWithSalt_def saltedHash_def DurationTooLow_def
  MinRetentionPolicyDuration_def Hour_def Let_def


text \<open>
  C10. \<open>Client.AcquireLease\<close> never fails: for every lease name, whatever the state of
  the client, it returns a lease of that name whose expiration is the current time plus
  \<open>DefaultLeaseDuration\<close>. The owner is left at zero and nothing of the client is
  read: no other holder or node is consulted.
\<close>

theorem AcquireLease_never_fails:
  "AcquireLease DefaultLeaseDuration now c name =
     Inr \<lparr>lease_Name = name, Owner = 0, Expiration = now + DefaultLeaseDuration\<rparr>"
  by (simp add: AcquireLease_def Add_def)

text \<open>
  C8. On the single-process client, \<open>SetData\<close> with a clone of a document \<open>D\<close>, when it
  returns nil, followed by \<open>Data()\<close>, yields \<open>D\<close> with its index advanced by one (on
  64 bits) and nothing else changed.
\<close>

theorem SetData_then_Data:
  assumes "SetData snapshot c (Clone D) = (None, c')"
  shows "Data_of c' = D\<lparr>Index := Index D + 1\<rparr>"
  using commit_None [of snapshot c D c'] assms
  by (simp add: SetData_def Clone_def Data_of_def)

theorem SetData_then_Data_witness:
  "SetData disk_ok fresh (Clone (empty_Data\<lparr>Index := 41\<rparr>))
     = (None, fresh\<lparr>cacheData := empty_Data\<lparr>Index := 42\<rparr>, changed := 1\<rparr>) \<and>
   Data_of (fresh\<lparr>cacheData := empty_Data\<lparr>Index := 42\<rparr>, changed := 1\<rparr>) = empty_Data\<lparr>Index := 42\<rparr>"
proof -
  have run: "SetData disk_ok fresh (Clone (empty_Data\<lparr>Index := 41\<rparr>))
     = (None, fresh\<lparr>cacheData := empty_Data\<lparr>Index := 42\<rparr>, changed := 1\<rparr>)"
    by (simp add: SetData_def run_defs)
  from SetData_then_Data [OF run] run show ?thesis by simp
qed

section \<open>Pruning\<close>

lemma keep_group_iff: "keep_group (Add now ShardGroupDeletedExpiration) sgi \<longleftrightarrow> \<not> expired now sgi"
  by (auto simp: keep_group_def expired_def IsZero_def After_def Add_def
      ShardGroupDeletedExpiration_def Hour_def)

lemma prune_groups_eq:
  "prune_groups e xs rem chg =
     (rem @ filter (keep_group e) xs, chg \<or> (\<exists>x\<in>set xs. \<not> keep_group e x))"
  by (induction xs arbitrary: rem chg) (auto simp: keep_group_def)

lemma prune_policies_eq:
  "prune_policies e rps chg =
     (map (\<lambda>rp. rp\<lparr>ShardGroups := filter (keep_group e) (ShardGroups rp)\<rparr>) rps,
      chg \<or> (\<exists>rp\<in>set rps. \<exists>x\<in>set (ShardGroups rp). \<not> keep_group e x))"
  by (induction rps arbitrary: chg) (auto simp: prune_groups_eq)

lemma prune_databases_eq:
  "prune_databases e dbs chg =
     (map (\<lambda>d. d\<lparr>RetentionPolicies :=
         map (\<lambda>rp. rp\<lparr>ShardGroups := filter (keep_group e) (ShardGroups rp)\<rparr>)
           (RetentionPolicies d)\<rparr>) dbs,
      chg \<or> (\<exists>d\<in>set dbs. \<exists>rp\<in>set (RetentionPolicies d).
               \<exists>x\<in>set (ShardGroups rp). \<not> keep_group e x))"
  by (induction dbs arbitrary: chg) (auto simp: prune_policies_eq)

lemma prune_nothing:
  assumes "\<forall>d\<in>set dbs. \<forall>rp\<in>set (RetentionPolicies d). \<forall>x\<in>set (ShardGroups rp). P x"
  shows "map (\<lambda>d. d\<lparr>RetentionPolicies :=
         map (\<lambda>rp. rp\<lparr>ShardGroups := filter P (ShardGroups rp)\<rparr>) (RetentionPolicies d)\<rparr>) dbs = dbs"
proof -
  have g: "filter P (ShardGroups rp) = ShardGroups rp"
    if "d \<in> set dbs" "rp \<in> set (RetentionPolicies d)" for d rp
    using assms that by (simp add: filter_id_conv)
  have p: "map (\<lambda>rp. rp\<lparr>ShardGroups := filter P (ShardGroups rp)\<rparr>) (RetentionPolicies d)
             = RetentionPolicies d" if "d \<in> set dbs" for d
    using g [OF that] by (simp add: map_idI)
  show ?thesis using p by (simp add: map_idI)
qed

text \<open>
  C7. When \<open>PruneShardGroups\<close> returns nil, the cached document is the one before with,
  in every retention policy of every database, exactly the shard groups removed whose
  \<open>DeletedAt\<close> is non-zero and lies more than 14 days before the current time; the live
  groups and those deleted within the last 14 days stay, unchanged and in their order.
  Nothing else of the document changes but its index.
\<close>

theorem PruneShardGroups_removes_expired:
  assumes "PruneShardGroups snapshot now c = (None, c')"
  shows "cacheData c' =
           (cacheData c)\<lparr>Databases := without_expired now (Databases (cacheData c)),
                          Index := Index (cacheData c')\<rparr>"
proof -
  let ?e = "Add now ShardGroupDeletedExpiration"
  have k: "keep_group ?e = (\<lambda>sgi. \<not> expired now sgi)"
    by (rule ext) (rule keep_group_iff)
  obtain dbs chg where pd: "prune_databases ?e (Databases (cacheData c)) False = (dbs, chg)"
    by (cases "prune_databases ?e (Databases (cacheData c)) False")
  from pd have dbs: "dbs = without_expired now (Databases (cacheData c))"
    by (simp add: prune_databases_eq k without_expired_def)
  show ?thesis
  proof (cases chg)
    case True
    with assms pd have "commit snapshot c ((cacheData c)\<lparr>Databases := dbs\<rparr>) = (None, c')"
      by (simp add: PruneShardGroups_def Clone_def Let_def)
    from commit_None [OF this] show ?thesis by (simp add: dbs)
  next
    case False
    with assms pd have c': "c' = c"
      by (simp add: PruneShardGroups_def Clone_def Let_def)
    from pd False
    have "\<forall>d\<in>set (Databases (cacheData c)). \<forall>rp\<in>set (RetentionPolicies d).
            \<forall>x\<in>set (ShardGroups rp). \<not> expired now x"
      by (simp add: prune_databases_eq k)
    from prune_nothing [OF this]
    have "without_expired now (Databases (cacheData c)) = Databases (cacheData c)"
      by (simp add: without_expired_def)
    then show ?thesis by (simp add: c')
  qed
qed

theorem PruneShardGroups_removes_expired_witness:
  "fst (PruneShardGroups disk_ok (100 * Day) three_groups) = None \<and>
   Databases (cacheData (snd (PruneShardGroups disk_ok (100 * Day) three_groups))) =
     [database_of ''db0''
        [policy_of ''rp0'' 0
           [group_at 1 (70 * Day) (77 * Day) 0, group_at 3 (84 * Day) (91 * Day) (99 * Day)]]]"
proof -
  let ?r = "PruneShardGroups disk_ok (100 * Day) three_groups"
  have ok: "fst ?r = None"
    by (simp add: PruneShardGroups_def three_groups_def database_of_def policy_of_def
        group_at_def Day_def IsZero_def After_def Add_def ShardGroupDeletedExpiration_def
        run_defs)
  then have run: "?r = (None, snd ?r)"
    by (metis prod.collapse)
  have "Databases (cacheData (snd ?r)) = without_expired (100 * Day) (Databases (cacheData three_groups))"
    using arg_cong [OF PruneShardGroups_removes_expired [OF run], of Databases] by simp
  also have "\<dots> = [database_of ''db0''
        [policy_of ''rp0'' 0
           [group_at 1 (70 * Day) (77 * Day) 0, group_at 3 (84 * Day) (91 * Day) (99 * Day)]]]"
    by (simp add: without_expired_def expired_def three_groups_def database_of_def policy_of_def
        group_at_def Day_def Hour_def)
  finally show ?thesis using ok by simp
qed

section \<open>The index across the mutating operations\<close>









text \<open>
  The flag \<open>changed\<close> of \<open>PrecreateShardGroups\<close> is raised by the round of a policy
  exactly when \<open>createShardGroup\<close> returns a group there, and is never lowered.
\<close>

lemma precreate_policy_flag:
  assumes "precreate_policy M lo hi n rp (data, chg) = Inr (data1, chg1)"
  shows "chg1 \<longleftrightarrow> chg \<or> creates_group M lo hi n rp data"
  using assms
  by (auto simp: precreate_policy_def creates_group_def Let_def
      split: if_splits option.splits sum.splits prod.splits)

lemma precreate_policies_flag:
  "precreate_policies M lo hi n rps (data, True) = Inr (data1, chg1) \<Longrightarrow> chg1"
proof (induction rps arbitrary: data)
  case Nil
  then show ?case by simp
next
  case (Cons rp rps)
  from Cons.prems obtain a b where
    p: "precreate_policy M lo hi n rp (data, True) = Inr (a, b)"
    and rest: "precreate_policies M lo hi n rps (a, b) = Inr (data1, chg1)"
    by (auto split: sum.splits)
  from precreate_policy_flag [OF p] have b by simp
  with rest Cons.IH show ?case by simp
qed

lemma precreate_databases_flag:
  "precreate_databases M lo hi dbs (data, True) = Inr (data1, chg1) \<Longrightarrow> chg1"
proof (induction dbs arbitrary: data)
  case Nil
  then show ?case by simp
next
  case (Cons d dbs)
  from Cons.prems obtain a b where
    p: "precreate_policies M lo hi (db_Name d) (RetentionPolicies d) (data, True) = Inr (a, b)"
    and rest: "precreate_databases M lo hi dbs (a, b) = Inr (data1, chg1)"
    by (auto split: sum.splits)
  from precreate_policies_flag [OF p] have b .
  with rest Cons.IH show ?case by simp
qed














section \<open>The authentication cache of the single-process client\<close>

text \<open>
  \<open>UpdateUser\<close> deletes the cache entry of the user before it commits; \<open>DropUser\<close>
  leaves the cache as it is.
\<close>

lemma UpdateUser_evicts:
  assumes "UpdateUser M K snapshot c name password = (None, c')"
  shows "authCache c' name = None"
proof -
  from assms obtain hashed where h: "GenerateFromPassword K password = Inr hashed"
    by (cases "GenerateFromPassword K password") (auto simp: UpdateUser_def Let_def)
  obtain e1 data1 where d1: "Data_UpdateUser M (Clone (cacheData c)) name hashed = (e1, data1)"
    by fastforce
  from assms h d1
  have "commit snapshot (c\<lparr>authCache := (authCache c)(name := None)\<rparr>) data1 = (None, c')"
    by (auto simp: UpdateUser_def Let_def split: option.splits)
  from commit_None [OF this] show ?thesis by simp
qed

lemma DropUser_keeps_cache: "authCache (snd (DropUser M snapshot c name)) = authCache c"
  by (auto simp: DropUser_def mutate_def commit_def Let_def split: option.splits prod.splits)

lemma recreated_Users: "Users (cacheData recreated) = [new_user]"
  by (simp add: recreated_def dropped_def logged_in_def created_def new_user_def run_defs)

lemma recreated_cache:
  "authCache recreated ''u'' = Some \<lparr>bhash = ''$2a$old'', salt = ''salt'', hash = ''saltold''\<rparr>"
  by (simp add: recreated_def dropped_def logged_in_def created_def run_defs)

text \<open>
  C2. The claim reads: \<open>Authenticate\<close> accepts a user name and password if and only if
  bcrypt accepts the password against the hash now stored for that user, whatever
  operations came before, and \<open>UpdateUser\<close> and \<open>DropUser\<close> each evict the cache entry
  of the user. In the single-process client \<open>DropUser\<close> does not: after user \<open>u\<close> was
  created with password \<open>old\<close>, has logged in, was dropped and was created again with
  password \<open>new\<close>, the stored hash is that of \<open>new\<close>, bcrypt rejects \<open>old\<close> against it,
  and \<open>Authenticate\<close> still accepts \<open>old\<close>, from the entry the first login left.
\<close>

theorem DropUser_keeps_auth_cache_entry:
  "Data_user (cacheData recreated) ''u'' = Some new_user \<and>
   \<not> CompareHashAndPassword ideal_crypto (Hash new_user) ''old'' \<and>
   fst (Authenticate ideal_crypto (Inr ''pepper'') recreated ''u'' ''old'') = Inr new_user"
proof -
  have u: "Data_user (cacheData recreated) ''u'' = Some new_user"
    by (simp add: Data_user_def recreated_Users new_user_def)
  have rejected: "\<not> CompareHashAndPassword ideal_crypto (Hash new_user) ''old''"
    by (simp add: ideal_crypto_def new_user_def)
  have "cache_accepts ideal_crypto recreated ''u'' ''old''"
    by (simp add: cache_accepts_def recreated_cache hashWithSalt_def ideal_crypto_def)
  with u have "fst (Authenticate ideal_crypto (Inr ''pepper'') recreated ''u'' ''old'') = Inr new_user"
    by (simp add: Authenticate_def)
  with u rejected show ?thesis by simp
qed

section \<open>Attempts of the cluster client\<close>

lemma follow_wire:
  "follow srv cmd n req wire = (res, wire') \<Longrightarrow> \<exists>more. wire' = wire @ more \<and> length more \<le> n"
proof (induction n arbitrary: req wire)
  case 0
  then show ?case by simp
next
  case (Suc n)
  show ?case
  proof (cases "srv wire req")
    case (Unreachable e)
    with Suc.prems show ?thesis by auto
  next
    case (Answer status location b)
    show ?thesis
    proof (cases "redirectBehavior (fst req) status")
      case None
      with Answer Suc.prems show ?thesis by auto
    next
      case (Some how)
      obtain redirectMethod includeBody where how: "how = (redirectMethod, includeBody)"
        by (cases how)
      show ?thesis
      proof (cases "location = []")
        case True
        with Answer Some how Suc.prems show ?thesis by auto
      next
        case False
        with Answer Some how Suc.prems
        have "follow srv cmd n (redirectMethod, location, if includeBody then Some cmd else None)
                (wire @ [req]) = (res, wire')"
          by simp
        from Suc.IH [OF this] obtain more where
          "wire' = (wire @ [req]) @ more" and "length more \<le> n" by blast
        then have "wire' = wire @ (req # more) \<and> length (req # more) \<le> Suc n" by simp
        then show ?thesis by blast
      qed
    qed
  qed
qed

lemma follow_answer:
  "follow srv cmd n req wire = (HTTP status location b, wire') \<Longrightarrow>
     (\<exists>history r. wire' = history @ [r] \<and> srv history r = Answer status location b) \<and>
     (status = StatusTemporaryRedirect \<longrightarrow> location = [])"
proof (induction n arbitrary: req wire)
  case 0
  then show ?case by simp
next
  case (Suc n)
  show ?case
  proof (cases "srv wire req")
    case (Unreachable e)
    with Suc.prems show ?thesis by auto
  next
    case (Answer status1 location1 b1)
    show ?thesis
    proof (cases "redirectBehavior (fst req) status1")
      case None
      with Answer Suc.prems have "status1 = status" "location1 = location" "b1 = b"
        "wire' = wire @ [req]" by auto
      with Answer None show ?thesis
        by (auto simp: redirectBehavior_def StatusTemporaryRedirect_def split: if_splits)
    next
      case (Some how)
      obtain redirectMethod includeBody where how: "how = (redirectMethod, includeBody)"
        by (cases how)
      show ?thesis
      proof (cases "location1 = []")
        case True
        with Answer Some how Suc.prems have "status1 = status" "location1 = location" "b1 = b"
          "wire' = wire @ [req]" by auto
        with Answer True show ?thesis by auto
      next
        case False
        with Answer Some how Suc.prems
        have "follow srv cmd n (redirectMethod, location1, if includeBody then Some cmd else None)
                (wire @ [req]) = (HTTP status location b, wire')"
          by simp
        from Suc.IH [OF this] show ?thesis .
      qed
    qed
  qed
qed

lemma follow_Location:
  assumes "srv wire (v, url, body0) = Answer StatusTemporaryRedirect location rb"
    and "location \<noteq> []"
  shows "follow srv cmd (Suc n) (v, url, body0) wire
           = follow srv cmd n (v, location, Some cmd) (wire @ [(v, url, body0)])"
  using assms by (simp add: redirectBehavior_def StatusTemporaryRedirect_def)

lemma follow_first:
  assumes "follow srv cmd (Suc n) req wire = (res, wire')"
  shows "\<exists>more. wire' = wire @ req # more"
proof (cases "srv wire req")
  case (Unreachable e)
  with assms show ?thesis by auto
next
  case (Answer status location b)
  show ?thesis
  proof (cases "redirectBehavior (fst req) status")
    case None
    with Answer assms show ?thesis by auto
  next
    case (Some how)
    obtain redirectMethod includeBody where how: "how = (redirectMethod, includeBody)"
      by (cases how)
    show ?thesis
    proof (cases "location = []")
      case True
      with Answer Some how assms show ?thesis by auto
    next
      case False
      with Answer Some how assms
      have "follow srv cmd n (redirectMethod, location, if includeBody then Some cmd else None)
              (wire @ [req]) = (res, wire')"
        by simp
      from follow_wire [OF this] show ?thesis by auto
    qed
  qed
qed

lemma exec_unmarshalled:
  "Marshal net cmd = Some e \<Longrightarrow> exec net w url cmd = ((0, Some (ErrOpaque e)), w)"
  by (simp add: exec_def)

lemma exec_posted:
  assumes "Marshal net cmd = None" and "exec net w url cmd = (res, w1)"
  shows "\<exists>r wire. http_Post (serve net) (sent w) url cmd = (r, wire) \<and>
           w1 = w\<lparr>posted := posted w @ [url], sent := wire\<rparr>"
  using assms
  by (cases "http_Post (serve net) (sent w) url cmd")
     (auto simp: exec_def Let_def split: post_result.splits body.splits if_splits)

lemma exec_world:
  assumes "exec net w url cmd = (res, w1)"
  shows "pending w1 = pending w \<and> closes w1 = closes w \<and>
         length (posted w1) \<le> Suc (length (posted w)) \<and>
         length (sent w1) \<le> length (sent w) + 10"
proof (cases "Marshal net cmd")
  case (Some e)
  with assms show ?thesis by (simp add: exec_unmarshalled)
next
  case None
  from exec_posted [OF None assms] obtain r wire where
    p: "http_Post (serve net) (sent w) url cmd = (r, wire)"
    and w1: "w1 = w\<lparr>posted := posted w @ [url], sent := wire\<rparr>" by blast
  from p follow_wire [of "serve net" cmd 10 "(POST, url, Some cmd)" "sent w" r wire]
  have "length wire \<le> length (sent w) + 10"
    by (auto simp: http_Post_def)
  with w1 show ?thesis by simp
qed

lemma exec_ok:
  assumes "exec net w url cmd = ((idx, None), w1)"
  shows "\<exists>history req loc.
           serve net history req = Answer StatusOK loc (Response idx []) \<and>
           sent w1 = history @ [req]"
proof -
  from assms have m: "Marshal net cmd = None"
    by (cases "Marshal net cmd") (simp_all add: exec_unmarshalled)
  from exec_posted [OF m assms] obtain r wire where
    p: "http_Post (serve net) (sent w) url cmd = (r, wire)"
    and w1: "w1 = w\<lparr>posted := posted w @ [url], sent := wire\<rparr>" by blast
  from assms m p obtain loc where r: "r = HTTP StatusOK loc (Response idx [])"
    by (auto simp: exec_def Let_def split: post_result.splits body.splits if_splits)
  from p r have "follow (serve net) cmd 10 (POST, url, Some cmd) (sent w)
                   = (HTTP StatusOK loc (Response idx []), wire)"
    by (simp add: http_Post_def)
  from follow_answer [OF this] w1 show ?thesis by auto
qed

lemma exec_error_kind:
  "exec net w url cmd = ((idx, Some e), w1) \<Longrightarrow>
     (\<exists>t. e = ErrOpaque t) \<or> (\<exists>h. e = errRedirect h) \<or> (\<exists>n. e = ErrStatus n) \<or> (\<exists>m. e = errCommand m)"
  by (cases "http_Post (serve net) (sent w) url cmd")
     (auto simp: exec_def Let_def split: option.splits post_result.splits body.splits if_splits)

lemma exec_errRedirect:
  assumes "exec net w url cmd = ((i, Some (errRedirect host)), w1)"
  shows "host = [] \<and> posted w1 = posted w @ [url]"
proof -
  from assms have m: "Marshal net cmd = None"
    by (cases "Marshal net cmd") (simp_all add: exec_unmarshalled)
  from exec_posted [OF m assms] obtain r wire where
    p: "http_Post (serve net) (sent w) url cmd = (r, wire)"
    and w1: "w1 = w\<lparr>posted := posted w @ [url], sent := wire\<rparr>" by blast
  from assms m p obtain b where r: "r = HTTP StatusTemporaryRedirect host b"
    by (auto simp: exec_def Let_def split: post_result.splits body.splits if_splits)
  from p r have "follow (serve net) cmd 10 (POST, url, Some cmd) (sent w)
                   = (HTTP StatusTemporaryRedirect host b, wire)"
    by (simp add: http_Post_def)
  from follow_answer [OF this] w1 show ?thesis by simp
qed

lemma exec_follows_Location:
  assumes "Marshal net cmd = None"
    and "serve net (sent w) (POST, url, Some cmd) = Answer StatusTemporaryRedirect location rb"
    and "location \<noteq> []"
    and "exec net w url cmd = (res, w1)"
  shows "posted w1 = posted w @ [url] \<and>
         (\<exists>more. sent w1 = sent w @ (POST, url, Some cmd) # (POST, location, Some cmd) # more)"
proof -
  from exec_posted [OF assms(1,4)] obtain r wire where
    p: "http_Post (serve net) (sent w) url cmd = (r, wire)"
    and w1: "w1 = w\<lparr>posted := posted w @ [url], sent := wire\<rparr>" by blast
  from p have "follow (serve net) cmd (Suc 9) (POST, url, Some cmd) (sent w) = (r, wire)"
    by (simp add: http_Post_def)
  with follow_Location [of "serve net" "sent w" POST url "Some cmd" location rb cmd 9,
         OF assms(2,3)]
  have "follow (serve net) cmd (Suc 8) (POST, location, Some cmd)
          (sent w @ [(POST, url, Some cmd)]) = (r, wire)"
    by simp
  from follow_first [OF this] w1 show ?thesis by auto
qed

lemma waitForIndex_reached:
  "waitForIndex c polls idx = Some (c1, rest) \<Longrightarrow> idx \<le> Index (rc_cacheData c1)"
  by (induction polls arbitrary: c) (auto split: if_splits)


lemma retry_loop_closed:
  "rc_closing c \<Longrightarrow> retry_loop net cmd c w tries cs red = (Returned None, c, w)"
  by (subst retry_loop.simps) simp

lemma retry_loop_closes:
  "\<not> rc_closing c \<Longrightarrow> closes w = Some 0 \<Longrightarrow>
     retry_loop net cmd c w tries cs red
       = (Returned None, c\<lparr>rc_closing := True\<rparr>, w\<lparr>closes := None\<rparr>)"
  by (subst retry_loop.simps) (simp add: Remote_Close_def)

lemma elapse_logs: "posted (elapse w) = posted w \<and> sent (elapse w) = sent w"
  by (simp add: elapse_def)

lemma retry_loop_bound:
  "retry_loop net cmd c w tries cs red = (r, c', w') \<Longrightarrow>
     length (posted w') \<le> length (posted w) + Suc (maxRetries - tries) \<and>
     length (sent w') \<le> length (sent w) + 10 * Suc (maxRetries - tries)"
proof (induction net cmd c w tries cs red arbitrary: r c' w' rule: retry_loop.induct)
  case (1 net cmd c w tries currentServer redirectServer)
  show ?case
  proof (cases "rc_closing c \<or> closes w = Some 0")
    case True
    with "1.prems" show ?thesis
      by (cases "rc_closing c") (auto simp: retry_loop_closed retry_loop_closes)
  next
    case False
    then have is_open: "\<not> rc_closing c" and stays: "closes w \<noteq> Some 0" by simp_all
    show ?thesis
    proof (cases "next_url c currentServer redirectServer")
      case None
      with is_open stays "1.prems" show ?thesis
        by (subst (asm) retry_loop.simps) (auto simp: elapse_logs)
    next
      case (Some target)
      note nu = this
      obtain url cs where target: "target = (url, cs)" by (cases target)
      obtain index e w1 where ex: "exec net (elapse w) url cmd = ((index, e), w1)"
        by (metis prod.exhaust)
      from exec_world [OF ex]
      have s1: "length (posted w1) \<le> Suc (length (posted w)) \<and>
                length (sent w1) \<le> length (sent w) + 10"
        by (simp add: elapse_logs)
      show ?thesis
      proof (cases e)
        case None
        with is_open stays nu target ex "1.prems" s1 show ?thesis
          by (subst (asm) retry_loop.simps) (auto split: option.splits)
      next
        case (Some err)
        note err = this
        show ?thesis
        proof (cases "Suc tries > maxRetries")
          case True
          with is_open stays nu target ex err "1.prems" s1 show ?thesis
            by (subst (asm) retry_loop.simps) auto
        next
          case again: False
          show ?thesis
          proof (cases "redirect_of err")
            case (Some host)
            with is_open stays nu target ex err again "1.prems"
            have "retry_loop net cmd c w1 (Suc tries) (Suc cs) host = (r, c', w')"
              by (subst (asm) retry_loop.simps) auto
            from "1.IH"(2) [OF is_open stays nu target [symmetric] ex [symmetric] refl err
                again Some this]
            have "length (posted w') \<le> length (posted w1) + Suc (maxRetries - Suc tries)"
              and "length (sent w') \<le> length (sent w1) + 10 * Suc (maxRetries - Suc tries)"
              by simp_all
            moreover from again have "maxRetries - tries = Suc (maxRetries - Suc tries)"
              by simp
            ultimately show ?thesis using s1 by arith
          next
            case None
            show ?thesis
            proof (cases "is_errCommand err")
              case True
              with is_open stays nu target ex err again None "1.prems" s1 show ?thesis
                by (subst (asm) retry_loop.simps) auto
            next
              case False
              with is_open stays nu target ex err again None "1.prems"
              have "retry_loop net cmd c w1 (Suc tries) (Suc cs) [] = (r, c', w')"
                by (subst (asm) retry_loop.simps) auto
              from "1.IH"(1) [OF is_open stays nu target [symmetric] ex [symmetric] refl err
                  again None False this]
              have "length (posted w') \<le> length (posted w1) + Suc (maxRetries - Suc tries)"
                and "length (sent w') \<le> length (sent w1) + 10 * Suc (maxRetries - Suc tries)"
                by simp_all
              moreover from again have "maxRetries - tries = Suc (maxRetries - Suc tries)"
                by simp
              ultimately show ?thesis using s1 by arith
            qed
          qed
        qed
      qed
    qed
  qed
qed

lemma retry_loop_result: "loop_result net (retry_loop net cmd c w tries cs red)"
proof (induction net cmd c w tries cs red rule: retry_loop.induct)
  case (1 net cmd c w tries currentServer redirectServer)
  show ?case
  proof (cases "rc_closing c \<or> closes w = Some 0")
    case True
    then show ?thesis
      by (cases "rc_closing c")
         (auto simp: retry_loop_closed retry_loop_closes loop_result_def Remote_Close_def)
  next
    case False
    then have is_open: "\<not> rc_closing c" and stays: "closes w \<noteq> Some 0" by simp_all
    show ?thesis
    proof (cases "next_url c currentServer redirectServer")
      case None
      with is_open stays show ?thesis
        by (subst retry_loop.simps) (simp add: loop_result_def)
    next
      case (Some target)
      note nu = this
      obtain url cs where target: "target = (url, cs)" by (cases target)
      obtain index e w1 where ex: "exec net (elapse w) url cmd = ((index, e), w1)"
        by (metis prod.exhaust)
      show ?thesis
      proof (cases e)
        case None
        with ex have ok: "exec net (elapse w) url cmd = ((index, None), w1)" by simp
        from exec_ok [OF ok] obtain history req loc where
          n: "serve net history req = Answer StatusOK loc (Response index [])"
          and w1: "sent w1 = history @ [req]" by blast
        show ?thesis
        proof (cases "waitForIndex c (pending w1) index")
          case None
          with is_open stays nu target ok show ?thesis
            by (subst retry_loop.simps) (simp add: loop_result_def)
        next
          case (Some found)
          obtain c1 rest where found: "found = (c1, rest)" by (cases found)
          from Some found waitForIndex_reached have "index \<le> Index (rc_cacheData c1)" by blast
          with n w1 have "answered net c1 (w1\<lparr>pending := rest\<rparr>)"
            unfolding answered_def by (intro exI [of _ history] exI [of _ req] exI [of _ loc]
                exI [of _ index]) simp
          with is_open stays nu target ok Some found show ?thesis
            by (subst retry_loop.simps) (simp add: loop_result_def)
        qed
      next
        case (Some err)
        note err = this
        with ex have "exec net (elapse w) url cmd = ((index, Some err), w1)" by simp
        from exec_error_kind [OF this] have kind: "exec_error err"
          by (simp add: exec_error_def)
        show ?thesis
        proof (cases "Suc tries > maxRetries")
          case True
          with is_open stays nu target ex err kind show ?thesis
            by (subst retry_loop.simps) (simp add: loop_result_def)
        next
          case again: False
          show ?thesis
          proof (cases "redirect_of err")
            case (Some host)
            from "1.IH"(2) [OF is_open stays nu target [symmetric] ex [symmetric] refl err
                again Some]
            have "loop_result net (retry_loop net cmd c w1 (Suc tries) (Suc cs) host)" .
            with is_open stays nu target ex err again Some show ?thesis
              by (subst retry_loop.simps) simp
          next
            case None
            show ?thesis
            proof (cases "is_errCommand err")
              case True
              with is_open stays nu target ex err again None kind show ?thesis
                by (subst retry_loop.simps) (simp add: loop_result_def)
            next
              case False
              from "1.IH"(1) [OF is_open stays nu target [symmetric] ex [symmetric] refl err
                  again None False]
              have "loop_result net (retry_loop net cmd c w1 (Suc tries) (Suc cs) [])" .
              with is_open stays nu target ex err again None False show ?thesis
                by (subst retry_loop.simps) simp
            qed
          qed
        qed
      qed
    qed
  qed
qed


lemma retry_loop_redirect:
  assumes "\<not> rc_closing c" and "closes w \<noteq> Some 0" and "next_url c cs red = Some (url, cs')"
    and "exec net (elapse w) url cmd = ((i, Some (errRedirect host)), w1)"
    and "tries < maxRetries"
  shows "retry_loop net cmd c w tries cs red = retry_loop net cmd c w1 (Suc tries) (Suc cs') []"
proof -
  from exec_errRedirect [OF assms(4)] have "host = []" by simp
  with assms show ?thesis by (subst retry_loop.simps) simp
qed

lemma follow_numeral:
  "follow srv cmd (numeral k) req wire =
     (case srv wire req of
        Unreachable e \<Rightarrow> (PostFailed e, wire @ [req])
      | Answer status location b \<Rightarrow>
          (case redirectBehavior (fst req) status of
             None \<Rightarrow> (HTTP status location b, wire @ [req])
           | Some (redirectMethod, includeBody) \<Rightarrow>
               if location = [] then (HTTP status location b, wire @ [req])
               else follow srv cmd (pred_numeral k)
                      (redirectMethod, location, if includeBody then Some cmd else None)
                      (wire @ [req])))"
  by (simp only: numeral_eq_Suc follow.simps)

lemmas remote_defs = follow_numeral retryUntilExec_def next_url_def exec_def http_Post_def redirectBehavior_def
  elapse_def one_server_def NewRemoteClient_def quiet_def maxRetries_def
  StatusTemporaryRedirect_def StatusOK_def empty_Data_def accepting_def bare_redirect_def
  not_found_def unavailable_def redirect_to_leader_def redirect_to_nowhere_def install_def
  updateAuthCache_def Remote_Close_def Let_def

text \<open>
  C3. The claim reads: after a 307 the next attempt goes to the \<open>Location\<close> target, and
  that redirected retry does not count against the limit of \<open>maxRetries\<close> attempts,
  which only network and 5xx failures consume. A 307 reaches \<open>retryUntilExec\<close> only
  when it names no \<open>Location\<close>, and then it is counted: against servers that answer
  every request with such a 307, and never fail, the call gives up with the redirect
  error after 11 attempts. Against servers that answer every request with a 404 it
  gives up after 11 attempts as well.
\<close>

theorem redirects_use_up_the_attempts:
  "fst (retryUntilExec bare_redirect one_server quiet (DropDatabaseCommand ''db0''))
     = Returned (Some (errRedirect [])) \<and>
   length (posted (snd (snd
     (retryUntilExec bare_redirect one_server quiet (DropDatabaseCommand ''db0''))))) = 11 \<and>
   fst (retryUntilExec not_found one_server quiet (DropDatabaseCommand ''db0''))
     = Returned (Some (ErrStatus 404)) \<and>
   length (posted (snd (snd
     (retryUntilExec not_found one_server quiet (DropDatabaseCommand ''db0''))))) = 11"
  by (simp add: remote_defs)

text \<open>
  C3, as the code has it. A 307 that names a \<open>Location\<close> does not reach
  \<open>retryUntilExec\<close>: when the server answers the request of \<open>exec\<close> with it,
  \<open>http.Post\<close> itself sends the command again, to the \<open>Location\<close> target, within the
  same call of \<open>exec\<close>, which stays one attempt. The only redirect error \<open>exec\<close> can
  return is that of a 307 without \<open>Location\<close>, with an empty host; it is an attempt
  like any other: while the client is open and fewer than \<open>maxRetries\<close> attempts have
  been made the loop goes on with \<open>tries\<close> one higher and no redirect target. Every
  call of \<open>exec\<close> counts, whatever its outcome: one call of \<open>retryUntilExec\<close> hands
  at most \<open>maxRetries + 1\<close> URLs to \<open>http.Post\<close>, which makes at most ten requests
  for each.
\<close>

theorem redirect_inside_one_attempt:
  "(Marshal net cmd = None \<and>
    serve net (sent w) (POST, url, Some cmd) = Answer StatusTemporaryRedirect location rb \<and>
    location \<noteq> [] \<and> exec net w url cmd = (res, w1)
      \<longrightarrow> posted w1 = posted w @ [url] \<and>
          (\<exists>more. sent w1 = sent w @ (POST, url, Some cmd) # (POST, location, Some cmd) # more)) \<and>
   (exec net w url cmd = ((i, Some (errRedirect host)), w1) \<longrightarrow> host = []) \<and>
   (\<not> rc_closing c \<and> closes w0 \<noteq> Some 0 \<and> next_url c cs red = Some (url, cs') \<and>
    exec net (elapse w0) url cmd = ((i, Some (errRedirect host)), w1) \<and> tries < maxRetries
      \<longrightarrow> retry_loop net cmd c w0 tries cs red
            = retry_loop net cmd c w1 (Suc tries) (Suc cs') []) \<and>
   (retryUntilExec net c w cmd = (r, c', w')
      \<longrightarrow> length (posted w') \<le> length (posted w) + Suc maxRetries \<and>
          length (sent w') \<le> length (sent w) + 10 * Suc maxRetries)"
proof (intro conjI impI)
  assume a: "Marshal net cmd = None \<and>
    serve net (sent w) (POST, url, Some cmd) = Answer StatusTemporaryRedirect location rb \<and>
    location \<noteq> [] \<and> exec net w url cmd = (res, w1)"
  then have m: "Marshal net cmd = None"
    and s: "serve net (sent w) (POST, url, Some cmd) = Answer StatusTemporaryRedirect location rb"
    and l: "location \<noteq> []" and e: "exec net w url cmd = (res, w1)"
    by simp_all
  from exec_follows_Location [OF m s l e]
  show "posted w1 = posted w @ [url]"
    and "\<exists>more. sent w1 = sent w @ (POST, url, Some cmd) # (POST, location, Some cmd) # more"
    by simp_all
next
  assume "exec net w url cmd = ((i, Some (errRedirect host)), w1)"
  from exec_errRedirect [OF this] show "host = []" by simp
next
  assume a: "\<not> rc_closing c \<and> closes w0 \<noteq> Some 0 \<and> next_url c cs red = Some (url, cs') \<and>
    exec net (elapse w0) url cmd = ((i, Some (errRedirect host)), w1) \<and> tries < maxRetries"
  with retry_loop_redirect [of c w0 cs red url cs' net cmd i host w1 tries]
  show "retry_loop net cmd c w0 tries cs red = retry_loop net cmd c w1 (Suc tries) (Suc cs') []"
    by simp
next
  assume "retryUntilExec net c w cmd = (r, c', w')"
  then have "retry_loop net cmd c w 0 0 [] = (r, c', w')"
    by (simp add: retryUntilExec_def)
  from retry_loop_bound [OF this]
  show "length (posted w') \<le> length (posted w) + Suc maxRetries"
    and "length (sent w') \<le> length (sent w) + 10 * Suc maxRetries"
    by simp_all
qed

theorem redirect_inside_one_attempt_witness:
  "exec redirect_to_nowhere quiet ''http://a:8091/execute'' (DropDatabaseCommand ''db0'')
     = ((0, Some (errRedirect [])),
        quiet\<lparr>posted := [''http://a:8091/execute''],
               sent := [(POST, ''http://a:8091/execute'', Some (DropDatabaseCommand ''db0'')),
                        (POST, ''http://b:8091/execute'', Some (DropDatabaseCommand ''db0''))]\<rparr>) \<and>
   retry_loop redirect_to_nowhere (DropDatabaseCommand ''db0'') one_server quiet 0 0 []
     = retry_loop redirect_to_nowhere (DropDatabaseCommand ''db0'') one_server
         (quiet\<lparr>posted := [''http://a:8091/execute''],
                sent := [(POST, ''http://a:8091/execute'', Some (DropDatabaseCommand ''db0'')),
                         (POST, ''http://b:8091/execute'', Some (DropDatabaseCommand ''db0''))]\<rparr>)
         1 1 [] \<and>
   length (posted (snd (snd (retryUntilExec redirect_to_nowhere one_server quiet
     (DropDatabaseCommand ''db0''))))) \<le> 11 \<and>
   length (sent (snd (snd (retryUntilExec redirect_to_nowhere one_server quiet
     (DropDatabaseCommand ''db0''))))) \<le> 110 \<and>
   retryUntilExec redirect_to_leader one_server (quiet\<lparr>pending := [empty_Data\<lparr>Index := 5\<rparr>]\<rparr>)
       (DropDatabaseCommand ''db0'')
     = (Returned None, install one_server (empty_Data\<lparr>Index := 5\<rparr>),
        quiet\<lparr>posted := [''http://a:8091/execute''],
               sent := [(POST, ''http://a:8091/execute'', Some (DropDatabaseCommand ''db0'')),
                        (POST, ''http://b:8091/execute'', Some (DropDatabaseCommand ''db0''))]\<rparr>)"
proof -
  let ?cmd = "DropDatabaseCommand ''db0''"
  let ?a = "''http://a:8091/execute''"
  let ?b = "''http://b:8091/execute''"
  let ?w1 = "quiet\<lparr>posted := [?a], sent := [(POST, ?a, Some ?cmd), (POST, ?b, Some ?cmd)]\<rparr>"
  let ?r = "retryUntilExec redirect_to_nowhere one_server quiet ?cmd"
  have ex: "exec redirect_to_nowhere quiet ?a ?cmd = ((0, Some (errRedirect [])), ?w1)"
    by (simp add: remote_defs)
  have h1: "Marshal redirect_to_nowhere ?cmd = None \<and>
            serve redirect_to_nowhere (sent quiet) (POST, ?a, Some ?cmd)
              = Answer StatusTemporaryRedirect ?b (Undecodable []) \<and>
            ?b \<noteq> [] \<and> exec redirect_to_nowhere quiet ?a ?cmd = ((0, Some (errRedirect [])), ?w1)"
    using ex by (simp add: redirect_to_nowhere_def quiet_def StatusTemporaryRedirect_def)
  have h3: "\<not> rc_closing one_server \<and> closes quiet \<noteq> Some 0 \<and>
            next_url one_server 0 [] = Some (?a, 0) \<and>
            exec redirect_to_nowhere (elapse quiet) ?a ?cmd = ((0, Some (errRedirect [])), ?w1) \<and>
            (0::nat) < maxRetries"
    using ex by (simp add: elapse_def next_url_def one_server_def NewRemoteClient_def quiet_def
        maxRetries_def)
  have run: "?r = (fst ?r, fst (snd ?r), snd (snd ?r))"
    by simp
  have leader: "retryUntilExec redirect_to_leader one_server
                  (quiet\<lparr>pending := [empty_Data\<lparr>Index := 5\<rparr>]\<rparr>) ?cmd
     = (Returned None, install one_server (empty_Data\<lparr>Index := 5\<rparr>), ?w1)"
    by (simp add: remote_defs)
  from redirect_inside_one_attempt
         [where net = redirect_to_nowhere and cmd = ?cmd and w = quiet and url = ?a
            and location = ?b and rb = "Undecodable []" and res = "(0, Some (errRedirect []))"
            and ?w1.0 = ?w1 and i = 0 and host = "[]" and c = one_server and ?w0.0 = quiet
            and cs = 0 and red = "[]" and cs' = 0 and tries = 0 and r = "fst ?r"
            and c' = "fst (snd ?r)" and w' = "snd (snd ?r)"]
       h1 h3 run ex leader
  show ?thesis by (simp add: quiet_def maxRetries_def)
qed




section \<open>The floor of retention durations\<close>

lemma DurationTooLow_iff:
  "spec_Duration spec = Some d \<Longrightarrow> DurationTooLow spec \<longleftrightarrow> d \<noteq> 0 \<and> d < Hour"
  by (auto simp: DurationTooLow_def MinRetentionPolicyDuration_def)

lemma retryUntilExec_error:
  assumes "retryUntilExec net c w cmd = (Returned (Some e), c', w')"
  shows "e \<noteq> ErrRetentionPolicyDurationTooLow"
  using retry_loop_result [of net cmd c w 0 0 "[]"] assms
  by (auto simp: retryUntilExec_def loop_result_def exec_error_def)

lemma then_read_error:
  assumes "fst (then_read r f) = Returned (Inl e)"
  shows "(\<exists>c1 w1. r = (Returned (Some e), c1, w1)) \<or> (\<exists>c1 w1. r = (Returned None, c1, w1) \<and> fst (f c1) = Inl e)"
  using assms
  by (cases r) (auto simp: then_read_def split: outcome.splits option.splits prod.splits)

lemma Remote_RetentionPolicy_error:
  "Remote_RetentionPolicy c database name = Inl e \<Longrightarrow> e = ErrDatabaseNotFound database"
  by (auto simp: Remote_RetentionPolicy_def split: option.splits)

lemma Remote_CreateRetentionPolicy_not_too_low:
  assumes "\<not> DurationTooLow spec"
  shows "fst (Remote_CreateRetentionPolicy M net rc w database spec makeDefault)
           \<noteq> Returned (Inl ErrRetentionPolicyDurationTooLow)"
proof
  assume a: "fst (Remote_CreateRetentionPolicy M net rc w database spec makeDefault)
           = Returned (Inl ErrRetentionPolicyDurationTooLow)"
  let ?r = "retryUntilExec net rc w
              (CreateRetentionPolicyCommand database (NewRetentionPolicyInfo M spec) makeDefault)"
  let ?f = "\<lambda>c1. (Remote_RetentionPolicy c1 database (spec_Name spec), c1)"
  from a assms have "fst (then_read ?r ?f) = Returned (Inl ErrRetentionPolicyDurationTooLow)"
    by (auto simp: Remote_CreateRetentionPolicy_def split: sum.splits option.splits)
  from then_read_error [OF this] show False
    by (auto dest: retryUntilExec_error Remote_RetentionPolicy_error)
qed

lemma Remote_CreateDatabaseWithRetentionPolicy_not_too_low:
  assumes "\<not> DurationTooLow spec"
  shows "fst (Remote_CreateDatabaseWithRetentionPolicy M net rc w name (Some spec))
           \<noteq> Returned (Inl ErrRetentionPolicyDurationTooLow)"
proof
  assume a: "fst (Remote_CreateDatabaseWithRetentionPolicy M net rc w name (Some spec))
           = Returned (Inl ErrRetentionPolicyDurationTooLow)"
  let ?r = "retryUntilExec net rc w (CreateDatabaseCommand name (Some (NewRetentionPolicyInfo M spec)))"
  let ?f = "\<lambda>c1. case Remote_Database c1 name of
                            None \<Rightarrow> (Inl ErrDatabaseNotExists, c1)
                          | Some db \<Rightarrow> (Inr db, c1)"
  from a assms have "fst (then_read ?r ?f) = Returned (Inl ErrRetentionPolicyDurationTooLow)"
    by (auto simp: Remote_CreateDatabaseWithRetentionPolicy_def Let_def
        split: option.splits if_splits)
  from then_read_error [OF this] show False
    by (auto dest: retryUntilExec_error split: option.splits)
qed

lemma CreateRetentionPolicy_not_too_low:
  assumes "\<not> DurationTooLow spec" and "never_too_low M snapshot"
  shows "fst (CreateRetentionPolicy M snapshot c database spec makeDefault)
           \<noteq> Inl ErrRetentionPolicyDurationTooLow"
proof -
  let ?rp = "NewRetentionPolicyInfo M spec"
  obtain e1 data1 where d1:
    "Data_CreateRetentionPolicy M (Clone (cacheData c)) database ?rp makeDefault = (e1, data1)"
    by fastforce
  with assms(2) have e1: "e1 \<noteq> Some ErrRetentionPolicyDurationTooLow"
    by (auto simp: never_too_low_def dest: arg_cong [where f = fst])
  obtain e2 c2 where cm: "commit snapshot c data1 = (e2, c2)" by fastforce
  with assms(2) have e2: "e2 \<noteq> Some ErrRetentionPolicyDurationTooLow"
    by (cases e2) (auto simp: never_too_low_def dest!: commit_error)
  from assms(1) d1 e1 cm e2 show ?thesis
    by (auto simp: CreateRetentionPolicy_def Let_def split: option.splits)
qed

lemma CreateDatabaseWithRetentionPolicy_not_too_low:
  assumes "\<not> DurationTooLow spec" and "never_too_low M snapshot"
  shows "fst (CreateDatabaseWithRetentionPolicy M snapshot c name (Some spec))
           \<noteq> Inl ErrRetentionPolicyDurationTooLow"
proof -
  have m1: "fst (Data_CreateDatabase M data a) \<noteq> Some ErrRetentionPolicyDurationTooLow" for data a
    using assms(2) by (simp add: never_too_low_def)
  have m2: "fst (Data_CreateRetentionPolicy M data a b d) \<noteq> Some ErrRetentionPolicyDurationTooLow"
    for data a b d
    using assms(2) by (simp add: never_too_low_def)
  have m3: "fst (commit snapshot c data) \<noteq> Some ErrRetentionPolicyDurationTooLow" for data
    using assms(2) by (auto simp: never_too_low_def commit_def Let_def split: option.splits)
  let ?data = "Clone (cacheData c)"
  obtain e1 data1 db1 where d1:
    "(case Data_Database ?data name of
        Some db \<Rightarrow> (None, ?data, Some db)
      | None \<Rightarrow>
          (case Data_CreateDatabase M ?data name of
             (Some err, data1) \<Rightarrow> (Some err, data1, None)
           | (None, data1) \<Rightarrow> (None, data1, Data_Database data1 name))) = (e1, data1, db1)"
    using prod_cases3 by blast
  have e1: "e1 \<noteq> Some ErrRetentionPolicyDurationTooLow"
    using d1 m1 [of ?data name] by (auto split: option.splits prod.splits)
  show ?thesis
  proof (cases "e1 = None \<and> db1 \<noteq> None")
    case False
    with assms(1) d1 e1 show ?thesis
      by (cases e1; cases db1) (auto simp: CreateDatabaseWithRetentionPolicy_def Let_def)
  next
    case True
    then obtain db where e1n: "e1 = None" and db: "db1 = Some db" by auto
    let ?rpi = "NewRetentionPolicyInfo M spec"
    obtain e2 data2 where d2:
      "(if RetentionPolicies db = []
        then Data_CreateRetentionPolicy M data1 name ?rpi True
        else if \<not> Matches M spec (db_RetentionPolicy db (rp_Name ?rpi))
        then (Some ErrRetentionPolicyConflict, data1)
        else (None, data1)) = (e2, data2)"
      by fastforce
    have e2: "e2 \<noteq> Some ErrRetentionPolicyDurationTooLow"
      using d2 m2 [of data1 name ?rpi True] by (auto split: if_splits)
    obtain e3 c3 where cm: "commit snapshot c data2 = (e3, c3)" by fastforce
    with m3 [of data2] have e3: "e3 \<noteq> Some ErrRetentionPolicyDurationTooLow" by simp
    from assms(1) d1 e1n db d2 e2 cm e3 show ?thesis
      by (cases e2; cases e3)
         (auto simp: CreateDatabaseWithRetentionPolicy_def Let_def split: if_splits)
  qed
qed

lemma never_too_low_small_Data: "never_too_low small_Data disk_ok"
  by (simp add: never_too_low_def small_Data_def spec_CreateDatabase_def
      spec_CreateRetentionPolicy_def disk_ok_def split: option.splits)

text \<open>
  C6. The claim reads: on both clients \<open>CreateRetentionPolicy\<close> and
  \<open>CreateDatabaseWithRetentionPolicy\<close> return \<open>ErrRetentionPolicyDurationTooLow\<close> for
  every requested duration that is non-zero and below one hour. The cluster client's
  \<open>CreateRetentionPolicy\<close> first looks the name up in its cache: asked for \<open>rp1\<close> with
  59 minutes when a policy \<open>rp1\<close> (of two hours) is cached, it returns that policy and
  no error, and sends nothing.
\<close>

theorem Remote_CreateRetentionPolicy_existing_policy:
  "spec_Duration short_spec = Some (59 * 60 * 1000000000) \<and>
   (59 * 60 * 1000000000 :: int) \<noteq> 0 \<and> (59 * 60 * 1000000000 :: int) < Hour \<and>
   Remote_CreateRetentionPolicy small_Data accepting with_rp1 quiet ''db0'' short_spec False
     = (Returned (Inr (Some (policy_of ''rp1'' (2 * Hour) []))), with_rp1, quiet)"
  by (simp add: Remote_CreateRetentionPolicy_def Remote_RetentionPolicy_def Remote_Database_def
      db_RetentionPolicy_def with_rp1_def short_spec_def database_of_def policy_of_def Hour_def
      remote_defs)

text \<open>
  C6, as the code has it. For a requested duration \<open>d\<close> that is non-zero and below one
  hour, \<open>CreateRetentionPolicy\<close> of the single-process client and
  \<open>CreateDatabaseWithRetentionPolicy\<close> of both clients return
  \<open>ErrRetentionPolicyDurationTooLow\<close> and change nothing; \<open>CreateRetentionPolicy\<close> of
  the cluster client does so unless its cache already holds a policy of the requested
  name in that database, which it then returns without error. For a duration that is
  zero or at least one hour the cluster client never returns that error, and the
  single-process client returns it only if a collaborator (a method of \<open>Data\<close>, the
  disk) hands it that error.
\<close>

theorem retention_duration_floor:
  assumes "spec_Duration spec = Some d"
  shows "(d \<noteq> 0 \<and> d < Hour \<longrightarrow>
            CreateRetentionPolicy M snapshot c database spec makeDefault
              = (Inl ErrRetentionPolicyDurationTooLow, c) \<and>
            CreateDatabaseWithRetentionPolicy M snapshot c name (Some spec)
              = (Inl ErrRetentionPolicyDurationTooLow, c) \<and>
            Remote_CreateDatabaseWithRetentionPolicy M net rc w name (Some spec)
              = (Returned (Inl ErrRetentionPolicyDurationTooLow), rc, w) \<and>
            Remote_CreateRetentionPolicy M net rc w database spec makeDefault
              = (case Remote_RetentionPolicy rc database (spec_Name spec) of
                   Inr (Some rp) \<Rightarrow> (Returned (Inr (Some rp)), rc, w)
                 | _ \<Rightarrow> (Returned (Inl ErrRetentionPolicyDurationTooLow), rc, w))) \<and>
         (d = 0 \<or> Hour \<le> d \<longrightarrow>
            fst (Remote_CreateRetentionPolicy M net rc w database spec makeDefault)
              \<noteq> Returned (Inl ErrRetentionPolicyDurationTooLow) \<and>
            fst (Remote_CreateDatabaseWithRetentionPolicy M net rc w name (Some spec))
              \<noteq> Returned (Inl ErrRetentionPolicyDurationTooLow) \<and>
            (never_too_low M snapshot \<longrightarrow>
               fst (CreateRetentionPolicy M snapshot c database spec makeDefault)
                 \<noteq> Inl ErrRetentionPolicyDurationTooLow \<and>
               fst (CreateDatabaseWithRetentionPolicy M snapshot c name (Some spec))
                 \<noteq> Inl ErrRetentionPolicyDurationTooLow))"
proof (intro conjI impI)
  assume low: "d \<noteq> 0 \<and> d < Hour"
  with assms have t: "DurationTooLow spec" by (simp add: DurationTooLow_iff)
  from t show "CreateRetentionPolicy M snapshot c database spec makeDefault
                 = (Inl ErrRetentionPolicyDurationTooLow, c)"
    by (simp add: CreateRetentionPolicy_def)
  from t show "CreateDatabaseWithRetentionPolicy M snapshot c name (Some spec)
                 = (Inl ErrRetentionPolicyDurationTooLow, c)"
    by (simp add: CreateDatabaseWithRetentionPolicy_def)
  from t show "Remote_CreateDatabaseWithRetentionPolicy M net rc w name (Some spec)
                 = (Returned (Inl ErrRetentionPolicyDurationTooLow), rc, w)"
    by (simp add: Remote_CreateDatabaseWithRetentionPolicy_def)
  from t show "Remote_CreateRetentionPolicy M net rc w database spec makeDefault
                 = (case Remote_RetentionPolicy rc database (spec_Name spec) of
                      Inr (Some rp) \<Rightarrow> (Returned (Inr (Some rp)), rc, w)
                    | _ \<Rightarrow> (Returned (Inl ErrRetentionPolicyDurationTooLow), rc, w))"
    by (simp add: Remote_CreateRetentionPolicy_def split: sum.splits option.splits)
next
  assume "d = 0 \<or> Hour \<le> d"
  with assms have t: "\<not> DurationTooLow spec" by (auto simp: DurationTooLow_iff)
  from t show "fst (Remote_CreateRetentionPolicy M net rc w database spec makeDefault)
                 \<noteq> Returned (Inl ErrRetentionPolicyDurationTooLow)"
    by (rule Remote_CreateRetentionPolicy_not_too_low)
  from t show "fst (Remote_CreateDatabaseWithRetentionPolicy M net rc w name (Some spec))
                 \<noteq> Returned (Inl ErrRetentionPolicyDurationTooLow)"
    by (rule Remote_CreateDatabaseWithRetentionPolicy_not_too_low)
  assume n: "never_too_low M snapshot"
  from t n show "fst (CreateRetentionPolicy M snapshot c database spec makeDefault)
                 \<noteq> Inl ErrRetentionPolicyDurationTooLow"
    by (rule CreateRetentionPolicy_not_too_low)
  from t n show "fst (CreateDatabaseWithRetentionPolicy M snapshot c name (Some spec))
                 \<noteq> Inl ErrRetentionPolicyDurationTooLow"
    by (rule CreateDatabaseWithRetentionPolicy_not_too_low)
qed

theorem retention_duration_floor_witness:
  "CreateRetentionPolicy small_Data disk_ok with_db0 ''db0'' short_spec False
     = (Inl ErrRetentionPolicyDurationTooLow, with_db0) \<and>
   Remote_CreateDatabaseWithRetentionPolicy small_Data accepting with_rp1 quiet ''db0''
       (Some short_spec)
     = (Returned (Inl ErrRetentionPolicyDurationTooLow), with_rp1, quiet) \<and>
   never_too_low small_Data disk_ok \<and>
   fst (CreateRetentionPolicy small_Data disk_ok with_db0 ''db0'' hour_spec False)
     \<noteq> Inl ErrRetentionPolicyDurationTooLow \<and>
   fst (CreateRetentionPolicy small_Data disk_ok with_db0 ''db0'' hour_spec False)
     = Inr ((policy_of ''rp1'' Hour [])\<lparr>ShardGroupDuration := Hour\<rparr>)"
proof -
  have s: "spec_Duration short_spec = Some (59 * 60 * 1000000000)"
    by (simp add: short_spec_def)
  have h: "spec_Duration hour_spec = Some (60 * 60 * 1000000000)"
    by (simp add: hour_spec_def)
  have ok: "fst (CreateRetentionPolicy small_Data disk_ok with_db0 ''db0'' hour_spec False)
              = Inr ((policy_of ''rp1'' Hour [])\<lparr>ShardGroupDuration := Hour\<rparr>)"
    by (simp add: with_db0_def hour_spec_def policy_of_def Day_def shardGroupDuration_def
        normalisedShardDuration_def run_defs)
  from retention_duration_floor
         [OF s, of small_Data disk_ok with_db0 "''db0''" False "''db0''" accepting with_rp1 quiet]
       retention_duration_floor
         [OF h, of small_Data disk_ok with_db0 "''db0''" False "''db0''" accepting with_rp1 quiet]
       never_too_low_small_Data ok
  show ?thesis by (simp add: Hour_def)
qed

section \<open>The closed cluster client\<close>

lemma Remote_Close_closes: "rc_closing (snd (Remote_Close c))"
  by (simp add: Remote_Close_def)





section \<open>Precreation\<close>

text \<open>
  On the document of \<open>two_databases\<close> the single-process client reaches the second
  database: the run of its loops is the attempt to create the group after instant 200
  in policy \<open>rp0\<close> of \<open>db2\<close>.
\<close>

lemma local_precreate_reaches_second_database:
  "precreate_databases M 150 250 (Databases (rc_cacheData two_databases)) (data, False)
     = (case Data_ShardGroupByTimestamp M data ''db2'' ''rp0'' 201 of
          Some rg \<Rightarrow> Inr (data, False)
        | None \<Rightarrow>
            (case createShardGroup M data ''db2'' ''rp0'' 201 of
               (Inl err, data1) \<Rightarrow> Inr (data1, False)
             | (Inr None, data1) \<Rightarrow> Inl (Panic ''nil pointer dereference'')
             | (Inr (Some newGroup), data1) \<Rightarrow> Inr (data1, True)))"
  by (simp add: two_databases_def database_of_def policy_of_def group_at_def
      precreate_policy_def should_precreate_def Deleted_def IsZero_def Before_def After_def
      Add_def Nanosecond_def
      split: option.splits sum.splits prod.splits)

text \<open>
  C5. The claim reads: \<open>PrecreateShardGroups\<close> goes through every retention policy of
  every database and creates the group after the latest one exactly when that one is
  live and ends strictly between \<open>from\<close> and \<open>to\<close>. The cluster client returns at the
  end of the first round of its outer loop. Its snapshot holds \<open>db1\<close>, without
  policies, and then \<open>db2\<close>, whose policy \<open>rp0\<close> has a live last group ending at
  instant 200; called with the range from 150 to 250 it returns nil and has sent
  nothing, whatever the servers and the methods of \<open>Data\<close> are.
\<close>

theorem Remote_PrecreateShardGroups_first_database_only:
  "Databases (rc_cacheData two_databases)
     = [database_of ''db1'' [], database_of ''db2'' [policy_of ''rp0'' 0 [group_at 1 100 200 0]]] \<and>
   should_precreate 150 250 (last (ShardGroups (policy_of ''rp0'' 0 [group_at 1 100 200 0]))) \<and>
   Remote_PrecreateShardGroups M net two_databases w 150 250 = (Returned None, two_databases, w)"
  by (simp add: Remote_PrecreateShardGroups_def two_databases_def database_of_def policy_of_def
      group_at_def should_precreate_def Deleted_def IsZero_def Before_def After_def)

end
